theory Spec2Isabelle
  imports Complex_Main "HOL-Library.Sublist"
begin

section \<open>JavaScript values and string operations used by youtube.js\<close>

text \<open>
  A JavaScript string is modelled as a \<^typ>\<open>string\<close>; a \<^typ>\<open>char\<close> stands for a
  UTF-16 code unit below 256. \<open>startsWith\<close>, \<open>endsWith\<close> and \<open>includes\<close> are
  \<^const>\<open>prefix\<close>, \<^const>\<open>suffix\<close> and \<^const>\<open>sublist\<close> (with the pattern first).
  \<open>undefined\<close> is \<open>None\<close> of an option type.
\<close>

text \<open>
  A thrown value: the engine's own TypeError and RangeError, or an error object of a
  collaborator with its optional \<open>message\<close> and its optional \<open>info.reason\<close>.
\<close>

datatype exn = TypeError | RangeError | Thrown "string option" "string option"

text \<open>
  \<open>String.prototype.split(sep, limit)\<close> for a non-empty string separator: the string is
  cut at every match found scanning from the left, then the pieces are truncated to
  \<open>limit\<close> pieces (the remainder is dropped, not kept in the last piece).
\<close>

function split_all :: "string \<Rightarrow> string \<Rightarrow> string \<Rightarrow> string list" where
  "split_all sep acc [] = [rev acc]"
| "split_all sep acc (c # s) =
     (if sep \<noteq> [] \<and> prefix sep (c # s)
      then rev acc # split_all sep [] (drop (length sep) (c # s))
      else split_all sep (c # acc) s)"
  by pat_completeness auto
termination
  by (relation "measure (\<lambda>(sep, acc, s). length s)") auto

definition js_split :: "string \<Rightarrow> nat \<Rightarrow> string \<Rightarrow> string list" where
  "js_split sep n s = take n (split_all sep [] s)"

text \<open>\<open>xs[0]\<close>: the first element, \<open>undefined\<close> on an empty array.\<close>

definition nth0 :: "'a list \<Rightarrow> 'a option" where
  "nth0 xs = (case xs of [] \<Rightarrow> None | x # _ \<Rightarrow> Some x)"

text \<open>
  \<open>String.prototype.replace(pat, rep)\<close> with a non-empty string pattern and a replacement
  without \<open>$\<close> patterns: only the first occurrence is replaced.
\<close>

fun js_replace :: "string \<Rightarrow> string \<Rightarrow> string \<Rightarrow> string" where
  "js_replace pat rep [] = []"
| "js_replace pat rep (c # s) =
     (if prefix pat (c # s) then rep @ drop (length pat) (c # s)
      else c # js_replace pat rep s)"

text \<open>
  \<open>String.prototype.trim\<close>: white space and line terminators are removed at both ends.
  Below code unit 256 these are TAB, LF, VT, FF, CR, SPACE and NBSP.
\<close>

definition is_ws :: "char \<Rightarrow> bool" where
  "is_ws c = (c \<in> set [CHR 0x09, CHR 0x0A, CHR 0x0B, CHR 0x0C, CHR 0x0D, CHR 0x20, CHR 0xA0])"

definition js_trim :: "string \<Rightarrow> string" where
  "js_trim s = rev (dropWhile is_ws (rev (dropWhile is_ws s)))"

text \<open>Decimal rendering of a number inside a template literal.\<close>

definition digit_char :: "nat \<Rightarrow> char" where
  "digit_char d = ''0123456789'' ! d"

function show_nat :: "nat \<Rightarrow> string" where
  "show_nat n =
     (if n < 10 then [digit_char n]
      else show_nat (n div 10) @ [digit_char (n mod 10)])"
  by pat_completeness auto
termination
  by (relation "measure (\<lambda>n. n)") auto

text \<open>
  JavaScript numbers, as far as the comparison \<open>a > b\<close> needs them: \<open>NaN\<close>, the two
  infinities and the finite values. A comparison with \<open>NaN\<close> is false.
\<close>

datatype jsnum = NaN | NegInf | Fin real | PosInf

fun js_gt :: "jsnum \<Rightarrow> jsnum \<Rightarrow> bool" where
  "js_gt NaN _ = False"
| "js_gt _ NaN = False"
| "js_gt NegInf _ = False"
| "js_gt _ PosInf = False"
| "js_gt _ NegInf = True"
| "js_gt PosInf _ = True"
| "js_gt (Fin a) (Fin b) = (b < a)"

text \<open>
  \<open>Number(s)\<close> on a string. A string of one to fifteen decimal digits denotes an integer
  below \<open>2^53\<close>, which \<open>Number\<close> returns exactly. On every other string (white space,
  signs, fractions, exponents, hexadecimal, longer digit strings that are rounded,
  text that yields \<open>NaN\<close>) the value of the builtin is the parameter \<open>other\<close>.
  \<open>Number(undefined)\<close> is \<open>NaN\<close>.
\<close>

definition is_digit :: "char \<Rightarrow> bool" where
  "is_digit c = (48 \<le> (of_char c :: nat) \<and> (of_char c :: nat) \<le> 57)"

definition dec_value :: "string \<Rightarrow> nat" where
  "dec_value s = foldl (\<lambda>a c. 10 * a + (of_char c - 48)) 0 s"

definition Number_str :: "(string \<Rightarrow> jsnum) \<Rightarrow> string \<Rightarrow> jsnum" where
  "Number_str other s =
     (if s \<noteq> [] \<and> length s \<le> 15 \<and> list_all is_digit s
      then Fin (real (dec_value s)) else other s)"

definition Number_js :: "(string \<Rightarrow> jsnum) \<Rightarrow> string option \<Rightarrow> jsnum" where
  "Number_js other v = (case v of None \<Rightarrow> NaN | Some s \<Rightarrow> Number_str other s)"

section \<open>Data model\<close>

text \<open>
  The fields that youtube.js reads of the objects it receives. An optional field is an
  option; \<open>error_screen?.reason?.text\<close> and \<open>error_screen?.subreason?.text\<close> are one
  optional field each, and \<open>info.streaming_data.adaptive_formats\<close> is the field
  \<open>adaptive_formats\<close>.
\<close>

record audio_track_info =
  audio_is_default :: bool

record variant =
  mime_type :: string
  bitrate :: int
  has_video :: bool
  has_audio :: bool
  content_length :: "nat option"
  quality_label :: "string option"
  width :: nat
  height :: nat
  language :: "string option"
  is_original :: bool
  audio_track :: "audio_track_info option"
  url :: string

record error_screen_info =
  reason_text :: "string option"
  subreason_text :: "string option"

record playability =
  status :: string
  reason :: "string option"
  error_screen :: "error_screen_info option"

record basicInfo =
  bi_id :: string
  bi_title :: string
  bi_author :: string
  bi_duration :: "int option"
  bi_is_live :: bool
  bi_short_description :: "string option"

record info =
  playability_status :: playability
  basic_info :: basicInfo
  adaptive_formats :: "variant list"

text \<open>The request object \<open>o\<close> of the default export.\<close>

record request =
  o_id :: string
  o_format :: "string option"
  o_quality :: "string option"
  o_dubLang :: "string option"
  o_isAudioOnly :: bool
  o_startTime :: "int option"
  o_endTime :: "int option"
  o_watermark :: "bool option"

text \<open>
  What the module takes from its surroundings: \<open>cleanString\<close> of misc/utils.js,
  \<open>env.durationLimit\<close> of config.js, and the value of \<open>Number\<close> on strings that are not
  short decimal digit strings.
\<close>

record host =
  cleanString :: "string \<Rightarrow> string"
  durationLimit :: int
  Number_other :: "string \<Rightarrow> jsnum"

record fileMetadata =
  title :: string
  artist :: string
  album :: "string option"
  copyright :: "string option"
  date :: "string option"

text \<open>\<open>youtubeDubName\<close> is \<open>None\<close> where the source stores \<open>false\<close>.\<close>

record filenameAttributes =
  service :: string
  fa_id :: string
  fa_title :: string
  fa_author :: string
  youtubeDubName :: "string option"
  qualityLabel :: "string option"
  resolution :: "string option"
  extension :: "string option"
  youtubeFormat :: "string option"

record audio_plan =
  audio_urls :: string
  audio_startTime :: "int option"
  audio_endTime :: "int option"
  audio_filenameAttributes :: filenameAttributes
  audio_fileMetadata :: fileMetadata
  bestAudio :: string

record merge_plan =
  merge_urls :: "string list"
  merge_startTime :: "int option"
  merge_endTime :: "int option"
  merge_watermark :: "bool option"
  merge_filenameAttributes :: filenameAttributes
  merge_fileMetadata :: fileMetadata

text \<open>
  The returned object: \<open>{error, critical?}\<close>, the plan of type \<open>"audio"\<close> or the plan of
  type \<open>"merge"\<close>. A thrown exception is \<open>Inl\<close> of the result.
\<close>

datatype response =
  ErrorResp string bool
| AudioResp audio_plan
| MergeResp merge_plan

record codec =
  videoCodec :: string
  audioCodec :: string
  container :: string

section \<open>The stream-selection pipeline (default export, after the fetch)\<close>

definition codecList :: "string \<Rightarrow> codec option" where
  "codecList name =
     (if name = ''h264'' then
        Some \<lparr>videoCodec = ''avc1'', audioCodec = ''mp4a'', container = ''mp4''\<rparr>
      else if name = ''av1'' then
        Some \<lparr>videoCodec = ''av01'', audioCodec = ''opus'', container = ''webm''\<rparr>
      else if name = ''vp9'' then
        Some \<lparr>videoCodec = ''vp9'', audioCodec = ''opus'', container = ''webm''\<rparr>
      else None)"

text \<open>
  The \<open>switch\<close> on \<open>playability.status\<close>: \<open>Inr (Some e)\<close> returns the error \<open>e\<close>,
  \<open>Inr None\<close> leaves the switch. In the \<open>LOGIN_REQUIRED\<close> case \<open>playability.reason\<close> is
  read without \<open>?.\<close>, so \<open>endsWith\<close> of an absent reason throws a TypeError.
\<close>

definition es_reason_text :: "playability \<Rightarrow> string option" where
  "es_reason_text p = (case error_screen p of None \<Rightarrow> None | Some es \<Rightarrow> reason_text es)"

definition es_subreason_text :: "playability \<Rightarrow> string option" where
  "es_subreason_text p = (case error_screen p of None \<Rightarrow> None | Some es \<Rightarrow> subreason_text es)"

definition opt_endsWith :: "string option \<Rightarrow> string \<Rightarrow> bool" where
  "opt_endsWith v pat = (case v of None \<Rightarrow> False | Some s \<Rightarrow> suffix pat s)"

definition playability_switch :: "playability \<Rightarrow> exn + string option" where
  "playability_switch p =
     (if status p = ''LOGIN_REQUIRED'' then
        (case reason p of
           None \<Rightarrow> Inl TypeError
         | Some r \<Rightarrow>
             if suffix ''bot'' r then Inr (Some ''youtube.login'')
             else if suffix ''age'' r then Inr (Some ''content.video.age'')
             else if es_reason_text p = Some ''Private video''
               then Inr (Some ''content.video.private'')
             else Inr None)
      else if status p = ''UNPLAYABLE'' then
        (if opt_endsWith (reason p) ''request limit.'' then Inr (Some ''fetch.rate'')
         else if opt_endsWith (es_subreason_text p) ''in your country''
           then Inr (Some ''content.video.region'')
         else if es_reason_text p = Some ''Private video''
           then Inr (Some ''content.video.private'')
         else Inr None)
      else if status p = ''AGE_VERIFICATION_REQUIRED'' then Inr (Some ''content.video.age'')
      else Inr None)"

text \<open>
  The names that the object literal \<open>codecList\<close> inherits from \<open>Object.prototype\<close>. For
  such a name \<open>codecList[format]\<close> is an object or a function without codec fields.
\<close>

definition inherited_names :: "string list" where
  "inherited_names =
     [''constructor'', ''__proto__'', ''hasOwnProperty'', ''isPrototypeOf'',
      ''propertyIsEnumerable'', ''toLocaleString'', ''toString'', ''valueOf'',
      ''__defineGetter__'', ''__defineSetter__'', ''__lookupGetter__'', ''__lookupSetter__'']"

text \<open>
  \<open>filterByCodec\<close>. For a codec family the filter tests the two tags. For an inherited
  name both \<open>videoCodec\<close> and \<open>audioCodec\<close> are \<open>undefined\<close>, and \<open>includes(undefined)\<close>
  searches for the text \<open>undefined\<close>. For any other name \<open>codecList[format]\<close> is
  \<open>undefined\<close> and the filter callback throws on the first element.
  \<open>Array.prototype.sort\<close> is stable, so sorting by
  \<open>Number(b.bitrate) - Number(a.bitrate)\<close> is the stable sort by descending bitrate.
\<close>

definition filterByCodec :: "string \<Rightarrow> variant list \<Rightarrow> exn + variant list" where
  "filterByCodec format formats =
     (case codecList format of
        None \<Rightarrow>
          if format \<in> set inherited_names then
            Inr (sort_key (\<lambda>e. - bitrate e)
                   (filter (\<lambda>e. sublist ''undefined'' (mime_type e)) formats))
          else if formats = [] then Inr [] else Inl TypeError
      | Some c \<Rightarrow>
          Inr (sort_key (\<lambda>e. - bitrate e)
                 (filter (\<lambda>e. sublist (videoCodec c) (mime_type e)
                              \<or> sublist (audioCodec c) (mime_type e)) formats)))"

text \<open>What \<open>filterByCodec\<close> keeps for the h264 family, in its order.\<close>

definition h264_matches :: "variant list \<Rightarrow> variant list" where
  "h264_matches fs =
     sort_key (\<lambda>e. - bitrate e)
       (filter (\<lambda>e. sublist ''avc1'' (mime_type e) \<or> sublist ''mp4a'' (mime_type e)) fs)"

text \<open>\<open>o.format || "h264"\<close>, the first filtering and the fallback to h264.\<close>

definition default_format :: "string option \<Rightarrow> string" where
  "default_format f = (case f of None \<Rightarrow> ''h264'' | Some n \<Rightarrow> if n = [] then ''h264'' else n)"

definition select_codec :: "string option \<Rightarrow> variant list \<Rightarrow> exn + string \<times> variant list" where
  "select_codec f formats =
     (let format = default_format f in
      case filterByCodec format formats of
        Inl e \<Rightarrow> Inl e
      | Inr fs \<Rightarrow>
          if fs = [] \<and> format \<in> set [''vp9'', ''av1''] then
            (case filterByCodec ''h264'' formats of
               Inl e \<Rightarrow> Inl e
             | Inr fs' \<Rightarrow> Inr (''h264'', fs'))
          else Inr (format, fs))"

definition truthy_len :: "nat option \<Rightarrow> bool" where
  "truthy_len v = (case v of None \<Rightarrow> False | Some n \<Rightarrow> n \<noteq> 0)"

definition truthy_str :: "string option \<Rightarrow> bool" where
  "truthy_str v = (case v of None \<Rightarrow> False | Some s \<Rightarrow> s \<noteq> [])"

definition checkBestAudio :: "variant \<Rightarrow> bool" where
  "checkBestAudio i = (has_audio i \<and> \<not> has_video i)"

definition is_default_track :: "variant \<Rightarrow> bool" where
  "is_default_track i = (case audio_track i of None \<Rightarrow> False | Some t \<Rightarrow> audio_is_default t)"

text \<open>The audio track and the flag \<open>isDubbed\<close>.\<close>

definition select_audio :: "string option \<Rightarrow> variant list \<Rightarrow> variant option \<times> bool" where
  "select_audio dubLang fs =
     (let audio = find (\<lambda>i. checkBestAudio i \<and> is_original i) fs;
          (audio1, isDubbed) =
            (if truthy_str dubLang then
               (case find (\<lambda>i. checkBestAudio i \<and> language i = dubLang
                               \<and> audio_track i \<noteq> None) fs of
                  None \<Rightarrow> (audio, False)
                | Some dubbedAudio \<Rightarrow>
                    if \<not> is_default_track dubbedAudio then (Some dubbedAudio, True)
                    else (audio, False))
             else (audio, False));
          audio2 = (case audio1 of None \<Rightarrow> find checkBestAudio fs | Some a \<Rightarrow> Some a)
      in (audio2, isDubbed))"

text \<open>
  The dub track as the claim words it: the first audio-only track that matches the
  language, carries audio-track metadata and is not its own default.
\<close>

definition dub_track_as_claimed :: "string option \<Rightarrow> variant list \<Rightarrow> variant option" where
  "dub_track_as_claimed dubLang fs =
     find (\<lambda>i. checkBestAudio i \<and> language i = dubLang \<and> audio_track i \<noteq> None
               \<and> \<not> is_default_track i) fs"

definition fileMetadata_of :: "host \<Rightarrow> basicInfo \<Rightarrow> fileMetadata" where
  "fileMetadata_of h b =
     (let m = \<lparr>title = cleanString h (js_trim (bi_title b)),
               artist = cleanString h (js_trim (js_replace ''- Topic'' [] (bi_author b))),
               album = None, copyright = None, date = None\<rparr>
      in case bi_short_description b of
           None \<Rightarrow> m
         | Some d \<Rightarrow>
             if prefix ''Provided to YouTube by'' d then
               (let descItems = js_split [CHR 0x0A, CHR 0x0A] 5 d in
                if length descItems = 5 then
                  (let m' = m\<lparr>album := Some (descItems ! 2), copyright := Some (descItems ! 3)\<rparr>
                   in if prefix ''Released on:'' (descItems ! 4)
                      then m'\<lparr>date := Some (js_trim (js_replace ''Released on: '' [] (descItems ! 4)))\<rparr>
                      else m')
                else m)
             else m)"

text \<open>\<open>qual\<close>: \<open>undefined\<close> for an absent or empty label.\<close>

definition qual :: "variant \<Rightarrow> string option" where
  "qual i =
     (if \<not> truthy_str (quality_label i) then None
      else case quality_label i of
             None \<Rightarrow> None
           | Some l \<Rightarrow>
               (case nth0 (js_split ''p'' 2 l) of
                  None \<Rightarrow> None
                | Some a \<Rightarrow> nth0 (js_split ''s'' 2 a)))"

text \<open>
  The spec's reading of the parsed quality: the prefix of the label before the first
  \<open>p\<close> or \<open>s\<close>.
\<close>

definition label_prefix :: "string \<Rightarrow> string" where
  "label_prefix l = takeWhile (\<lambda>c. c \<noteq> CHR ''p'' \<and> c \<noteq> CHR ''s'') l"

definition matchingQuality :: "host \<Rightarrow> string option \<Rightarrow> variant \<Rightarrow> string option" where
  "matchingQuality h q bestVideo =
     (let quality = (if q = Some ''max'' then Some ''9000'' else q);
          bestQuality = qual bestVideo
      in if js_gt (Number_js (Number_other h) quality) (Number_js (Number_other h) bestQuality)
         then bestQuality else quality)"

definition select_video :: "host \<Rightarrow> string option \<Rightarrow> variant \<Rightarrow> variant list \<Rightarrow> variant option" where
  "select_video h q bestVideo fs =
     find (\<lambda>i. qual i = matchingQuality h q bestVideo \<and> has_video i \<and> \<not> has_audio i) fs"

text \<open>The attributes common to both plans, and the plans themselves.\<close>

definition base_attributes :: "request \<Rightarrow> fileMetadata \<Rightarrow> bool \<Rightarrow> filenameAttributes" where
  "base_attributes o' meta isDubbed =
     \<lparr>service = ''youtube'', fa_id = o_id o', fa_title = title meta, fa_author = artist meta,
      youtubeDubName = (if isDubbed then o_dubLang o' else None),
      qualityLabel = None, resolution = None, extension = None, youtubeFormat = None\<rparr>"

definition audio_response ::
  "request \<Rightarrow> string \<Rightarrow> filenameAttributes \<Rightarrow> fileMetadata \<Rightarrow> variant \<Rightarrow> response" where
  "audio_response o' format attrs meta a =
     AudioResp \<lparr>audio_urls = url a, audio_startTime = o_startTime o',
       audio_endTime = o_endTime o', audio_filenameAttributes = attrs,
       audio_fileMetadata = meta,
       bestAudio = (if format = ''h264'' then ''m4a'' else ''opus'')\<rparr>"

definition merge_response ::
  "request \<Rightarrow> string \<Rightarrow> filenameAttributes \<Rightarrow> fileMetadata \<Rightarrow> variant \<Rightarrow> variant \<Rightarrow> response" where
  "merge_response o' format attrs meta v a =
     MergeResp \<lparr>merge_urls = [url v, url a], merge_startTime = o_startTime o',
       merge_endTime = o_endTime o', merge_watermark = o_watermark o',
       merge_filenameAttributes =
         attrs\<lparr>qualityLabel := quality_label v,
               resolution := Some (show_nat (width v) @ ''x'' @ show_nat (height v)),
               extension := map_option container (codecList format),
               youtubeFormat := Some format\<rparr>,
       merge_fileMetadata = meta\<rparr>"

text \<open>
  From \<open>const bestVideo\<close> to the end of the function, for the resolved codec family
  \<open>format\<close> and the filtered variants \<open>fs\<close>. The source returns the audio plan when
  \<open>audio && o.isAudioOnly\<close>, then evaluates \<open>qual(bestVideo)\<close> (a TypeError when
  \<open>bestVideo\<close> is \<open>undefined\<close>), then returns the merge plan when \<open>video && audio\<close> and
  \<open>fetch.fail\<close> otherwise; the case analysis on \<open>audio\<close> below is that order of events.
\<close>

definition build_plan :: "host \<Rightarrow> request \<Rightarrow> info \<Rightarrow> string \<Rightarrow> variant list \<Rightarrow> exn + response" where
  "build_plan h o' info format fs =
     (let bestVideo = find (\<lambda>i. has_video i \<and> truthy_len (content_length i)) fs;
          hasAudio = find (\<lambda>i. has_audio i \<and> truthy_len (content_length i)) fs
      in if (bestVideo = None \<and> \<not> o_isAudioOnly o') \<or> (hasAudio = None \<and> o_isAudioOnly o')
         then Inr (ErrorResp ''fetch.empty'' False)
         else
           (let audio = fst (select_audio (o_dubLang o') fs);
                isDubbed = snd (select_audio (o_dubLang o') fs);
                meta = fileMetadata_of h (basic_info info);
                attrs = base_attributes o' meta isDubbed
            in case audio of
                 None \<Rightarrow>
                   (case bestVideo of
                      None \<Rightarrow> Inl TypeError
                    | Some bv \<Rightarrow> Inr (ErrorResp ''fetch.fail'' False))
               | Some a \<Rightarrow>
                   if o_isAudioOnly o' then Inr (audio_response o' format attrs meta a)
                   else
                     (case bestVideo of
                        None \<Rightarrow> Inl TypeError
                      | Some bv \<Rightarrow>
                          (case select_video h (o_quality o') bv fs of
                             None \<Rightarrow> Inr (ErrorResp ''fetch.fail'' False)
                           | Some v \<Rightarrow> Inr (merge_response o' format attrs meta v a)))))"

definition select_streams :: "host \<Rightarrow> request \<Rightarrow> info \<Rightarrow> exn + response" where
  "select_streams h o' info =
     (case select_codec (o_format o') (adaptive_formats info) of
        Inl e \<Rightarrow> Inl e
      | Inr (format, fs) \<Rightarrow> build_plan h o' info format fs)"

text \<open>
  \<open>basicInfo.duration > env.durationLimit\<close>; the comparison is false when the duration is
  \<open>undefined\<close>.
\<close>

definition too_long :: "host \<Rightarrow> basicInfo \<Rightarrow> bool" where
  "too_long h b = (case bi_duration b of None \<Rightarrow> False | Some d \<Rightarrow> durationLimit h < d)"

text \<open>From \<open>const playability = info.playability_status\<close> to the end of the function.\<close>

definition process :: "host \<Rightarrow> request \<Rightarrow> info \<Rightarrow> exn + response" where
  "process h o' info =
     (let playability = playability_status info; basicInfo = basic_info info in
      case playability_switch playability of
        Inl e \<Rightarrow> Inl e
      | Inr (Some err) \<Rightarrow> Inr (ErrorResp err False)
      | Inr None \<Rightarrow>
          if status playability \<noteq> ''OK'' then Inr (ErrorResp ''content.video.unavailable'' False)
          else if bi_is_live basicInfo then Inr (ErrorResp ''content.video.live'' False)
          else if too_long h basicInfo then Inr (ErrorResp ''content.too_long'' False)
          else if bi_id basicInfo \<noteq> o_id o' then Inr (ErrorResp ''fetch.fail'' True)
          else select_streams h o' info)"

section \<open>The session manager (\<open>cloneInnertube\<close>) and the default export\<close>

text \<open>
  A value of a credential bundle is a string, a number or a date (its time value, \<open>None\<close>
  for an invalid date). A bundle maps keys to values.
\<close>

datatype cval = VStr string | VNum int | VDate "int option"

type_synonym credentials = "string \<rightharpoonup> cval"

definition is_string :: "cval option \<Rightarrow> bool" where
  "is_string v = (case v of Some (VStr _) \<Rightarrow> True | _ \<Rightarrow> False)"

definition truthy :: "cval option \<Rightarrow> bool" where
  "truthy v =
     (case v of None \<Rightarrow> False | Some (VStr s) \<Rightarrow> s \<noteq> [] | Some (VNum n) \<Rightarrow> n \<noteq> 0
      | Some (VDate _) \<Rightarrow> True)"

definition REQUIRED_VALUES :: "string list" where
  "REQUIRED_VALUES = [''access_token'', ''refresh_token'']"

definition transformSessionData :: "credentials option \<Rightarrow> credentials option" where
  "transformSessionData cookie =
     (case cookie of
        None \<Rightarrow> None
      | Some values \<Rightarrow>
          if list_ex (\<lambda>x. \<not> is_string (values x)) REQUIRED_VALUES then None
          else if truthy (values ''expires'')
            then Some ((values(''expiry_date'' := values ''expires''))(''expires'' := None))
          else if \<not> truthy (values ''expiry_date'') then None
          else Some values)"

definition PLAYER_REFRESH_PERIOD :: int where
  "PLAYER_REFRESH_PERIOD = 1000 * 60 * 15"

datatype client = Client nat

text \<open>The module variables \<open>innertube\<close> and \<open>lastRefreshedAt\<close>, both \<open>undefined\<close> at load.\<close>

record globals =
  innertube :: "client option"
  lastRefreshedAt :: "int option"

record oauth_state =
  client_id :: credentials
  oauth2_tokens :: credentials

record session =
  session_client :: client
  logged_in :: bool
  oauth :: oauth_state

text \<open>
  What one call meets outside the module: the clock at the staleness check and at the
  assignment of \<open>lastRefreshedAt\<close>, the outcome of \<open>Innertube.create\<close>, the state of a newly
  constructed \<open>Session\<close>, the OAuth operations of youtubei.js, the \<open>Date\<close> constructor
  (\<open>new Date(v).getTime()\<close>, \<open>None\<close> for \<open>NaN\<close>) with \<open>toISOString\<close>, and \<open>getBasicInfo\<close>
  by video id and client tag.
\<close>

record ext =
  now_check :: int
  now_set :: int
  create :: "exn + client"
  fresh_logged_in :: bool
  fresh_oauth :: oauth_state
  oauth_init :: "credentials \<Rightarrow> exn + oauth_state"
  shouldRefreshToken :: "oauth_state \<Rightarrow> bool"
  refreshAccessToken :: "oauth_state \<Rightarrow> exn + oauth_state"
  Date_time :: "cval option \<Rightarrow> int option"
  toISOString :: "int \<Rightarrow> string"
  getBasicInfo :: "string \<Rightarrow> string \<Rightarrow> exn + info option"

text \<open>The calls made to the collaborators, in order.\<close>

datatype event = EvCreate | EvInit credentials | EvRefresh | EvUpdate credentials

text \<open>The arguments of the calls of \<open>updateCookieValues\<close> among the events.\<close>

fun updates_of :: "event list \<Rightarrow> credentials list" where
  "updates_of [] = []"
| "updates_of (EvUpdate w # ev) = w # updates_of ev"
| "updates_of (e # ev) = updates_of ev"

text \<open>
  Modelled from the spec: \<open>updateCookieValues\<close> of cookie/manager.js, which is not among
  the sources; the spec's \<open>CredentialStore.update\<close> merges the given fields into the
  stored bundle.
\<close>

definition updateCookieValues :: "credentials \<Rightarrow> credentials \<Rightarrow> credentials" where
  "updateCookieValues cookie vals = cookie ++ vals"

text \<open>
  \<open>lastRefreshedAt + PLAYER_REFRESH_PERIOD < new Date()\<close>; with \<open>lastRefreshedAt\<close>
  undefined the sum is \<open>NaN\<close> and the comparison is false.
\<close>

definition shouldRefreshPlayer :: "globals \<Rightarrow> int \<Rightarrow> bool" where
  "shouldRefreshPlayer g now =
     (case lastRefreshedAt g of None \<Rightarrow> False | Some t \<Rightarrow> t + PLAYER_REFRESH_PERIOD < now)"

text \<open>
  \<open>innertube = await Innertube.create(...)\<close> followed by \<open>lastRefreshedAt = +new Date()\<close>;
  when \<open>create\<close> throws, neither variable is assigned.
\<close>

definition rebuild :: "ext \<Rightarrow> globals \<Rightarrow> (exn + client) \<times> globals \<times> event list" where
  "rebuild x g =
     (case create x of
        Inl e \<Rightarrow> (Inl e, g, [EvCreate])
      | Inr c \<Rightarrow> (Inr c, \<lparr>innertube = Some c, lastRefreshedAt = Some (now_set x)\<rparr>, [EvCreate]))"

text \<open>\<open>if (!innertube || shouldRefreshPlayer)\<close>, then the shared client.\<close>

definition acquire_client :: "ext \<Rightarrow> globals \<Rightarrow> (exn + client) \<times> globals \<times> event list" where
  "acquire_client x g =
     (case innertube g of
        None \<Rightarrow> rebuild x g
      | Some c \<Rightarrow> if shouldRefreshPlayer g (now_check x) then rebuild x g else (Inr c, g, []))"

definition oauth_login :: "ext \<Rightarrow> credentials option \<Rightarrow> session \<Rightarrow> (exn + session) \<times> event list" where
  "oauth_login x oauthData s =
     (case oauthData of
        None \<Rightarrow> (Inr s, [])
      | Some d \<Rightarrow>
          if logged_in s then (Inr s, [])
          else (case oauth_init x d of
                  Inl e \<Rightarrow> (Inl e, [EvInit d])
                | Inr oa \<Rightarrow> (Inr (s\<lparr>logged_in := True, oauth := oa\<rparr>), [EvInit d])))"

definition refresh_token :: "ext \<Rightarrow> session \<Rightarrow> (exn + session) \<times> event list" where
  "refresh_token x s =
     (if shouldRefreshToken x (oauth s) then
        (case refreshAccessToken x (oauth s) of
           Inl e \<Rightarrow> (Inl e, [EvRefresh])
         | Inr oa \<Rightarrow> (Inr (s\<lparr>oauth := oa\<rparr>), [EvRefresh]))
      else (Inr s, []))"

text \<open>\<open>a !== b\<close> on two time values: \<open>NaN\<close> differs from everything, itself included.\<close>

definition time_differs :: "int option \<Rightarrow> int option \<Rightarrow> bool" where
  "time_differs a b = (case (a, b) of (Some s, Some t) \<Rightarrow> s \<noteq> t | _ \<Rightarrow> True)"

definition written_bundle :: "oauth_state \<Rightarrow> string \<Rightarrow> credentials" where
  "written_bundle oa stamp = (client_id oa ++ oauth2_tokens oa)(''expiry_date'' \<mapsto> VStr stamp)"

text \<open>
  The comparison of the expiries and the write. \<open>cookie.values()\<close> throws a TypeError on
  an absent cookie, \<open>toISOString\<close> a RangeError on an invalid date.
\<close>

definition write_back :: "ext \<Rightarrow> credentials option \<Rightarrow> session \<Rightarrow> (exn + unit) \<times> credentials option \<times> event list" where
  "write_back x cookie s =
     (case cookie of
        None \<Rightarrow> (Inl TypeError, cookie, [])
      | Some cookieValues \<Rightarrow>
          (let oldExpiry = Date_time x (cookieValues ''expiry_date'');
               newExpiry = Date_time x (oauth2_tokens (oauth s) ''expiry_date'')
           in if time_differs oldExpiry newExpiry then
                (case newExpiry of
                   None \<Rightarrow> (Inl RangeError, cookie, [])
                 | Some t \<Rightarrow>
                     (let w = written_bundle (oauth s) (toISOString x t)
                      in (Inr (), Some (updateCookieValues cookieValues w), [EvUpdate w])))
              else (Inr (), cookie, [])))"

definition cloneInnertube ::
  "ext \<Rightarrow> globals \<Rightarrow> credentials option \<Rightarrow> (exn + session) \<times> globals \<times> credentials option \<times> event list" where
  "cloneInnertube x g cookie =
     (case acquire_client x g of
        (Inl e, g', ev) \<Rightarrow> (Inl e, g', cookie, ev)
      | (Inr c, g', ev) \<Rightarrow>
          (let s0 = \<lparr>session_client = c, logged_in = fresh_logged_in x, oauth = fresh_oauth x\<rparr>;
               oauthData = transformSessionData cookie
           in case oauth_login x oauthData s0 of
                (Inl e, ev1) \<Rightarrow> (Inl e, g', cookie, ev @ ev1)
              | (Inr s1, ev1) \<Rightarrow>
                  if logged_in s1 then
                    (case refresh_token x s1 of
                       (Inl e, ev2) \<Rightarrow> (Inl e, g', cookie, ev @ ev1 @ ev2)
                     | (Inr s2, ev2) \<Rightarrow>
                         (case write_back x cookie s2 of
                            (Inl e, ck, ev3) \<Rightarrow> (Inl e, g', ck, ev @ ev1 @ ev2 @ ev3)
                          | (Inr _, ck, ev3) \<Rightarrow> (Inr s2, g', ck, ev @ ev1 @ ev2 @ ev3)))
                  else (Inr s1, g', cookie, ev @ ev1)))"

text \<open>
  The two \<open>catch\<close> blocks of the default export. The messages of the engine's own
  TypeError and RangeError match none of the patterns.
\<close>

definition catch_session :: "exn \<Rightarrow> exn + response" where
  "catch_session e =
     (case e of
        Thrown (Some m) r \<Rightarrow>
          if suffix ''decipher algorithm'' m then Inr (ErrorResp ''youtube.decipher'' False)
          else if sublist ''refresh access token'' m then Inr (ErrorResp ''youtube.token_expired'' False)
          else Inl e
      | _ \<Rightarrow> Inl e)"

definition catch_fetch :: "exn \<Rightarrow> response" where
  "catch_fetch e =
     (case e of
        Thrown m r \<Rightarrow>
          if r = Some ''This video is private'' then ErrorResp ''content.video.private'' False
          else if m = Some ''This video is unavailable'' then ErrorResp ''content.video.unavailable'' False
          else ErrorResp ''fetch.fail'' False
      | _ \<Rightarrow> ErrorResp ''fetch.fail'' False)"

definition youtube ::
  "host \<Rightarrow> ext \<Rightarrow> globals \<Rightarrow> credentials option \<Rightarrow> request
     \<Rightarrow> (exn + response) \<times> globals \<times> credentials option \<times> event list" where
  "youtube h x g cookie o' =
     (case cloneInnertube x g cookie of
        (Inl e, g', ck, ev) \<Rightarrow> (catch_session e, g', ck, ev)
      | (Inr yt, g', ck, ev) \<Rightarrow>
          (case getBasicInfo x (o_id o') (if logged_in yt then ''ANDROID'' else ''IOS'') of
             Inl e \<Rightarrow> (Inr (catch_fetch e), g', ck, ev)
           | Inr None \<Rightarrow> (Inr (ErrorResp ''fetch.fail'' False), g', ck, ev)
           | Inr (Some info) \<Rightarrow> (process h o' info, g', ck, ev)))"

section \<open>Concrete inputs\<close>

text \<open>
  Inputs on which the definitions are evaluated. \<open>ex_host\<close> has the identity for the
  sanitizer and \<open>NaN\<close> for \<open>Number\<close> outside the short digit strings; every string whose
  number the examples take is a short digit string.
\<close>

definition ex_host :: host where
  "ex_host = \<lparr>cleanString = (\<lambda>s. s), durationLimit = 10800, Number_other = (\<lambda>s. NaN)\<rparr>"

definition video_variant :: "string \<Rightarrow> int \<Rightarrow> string \<Rightarrow> nat \<Rightarrow> nat \<Rightarrow> string \<Rightarrow> variant" where
  "video_variant mime rate label w hgt link =
     \<lparr>mime_type = mime, bitrate = rate, has_video = True, has_audio = False,
      content_length = Some 1000, quality_label = Some label, width = w, height = hgt,
      language = None, is_original = False, audio_track = None, url = link\<rparr>"

definition audio_variant :: "string \<Rightarrow> int \<Rightarrow> string \<Rightarrow> bool \<Rightarrow> bool \<Rightarrow> string \<Rightarrow> variant" where
  "audio_variant mime rate lang orig dflt link =
     \<lparr>mime_type = mime, bitrate = rate, has_video = False, has_audio = True,
      content_length = Some 1000, quality_label = None, width = 0, height = 0,
      language = Some lang, is_original = orig,
      audio_track = Some \<lparr>audio_is_default = dflt\<rparr>, url = link\<rparr>"

definition v144 :: variant where
  "v144 = video_variant ''video/mp4; codecs=avc1.4d400c'' 100 ''144p'' 256 144 ''link1''"

definition v720 :: variant where
  "v720 = video_variant ''video/mp4; codecs=avc1.4d401f'' 1500 ''720p'' 1280 720 ''link2''"

definition v1080 :: variant where
  "v1080 = video_variant ''video/mp4; codecs=avc1.640028'' 4000 ''1080p'' 1920 1080 ''link3''"

definition a_orig :: variant where
  "a_orig = audio_variant ''audio/mp4; codecs=mp4a.40.2'' 128 ''en'' True True ''link4''"

definition a_es :: variant where
  "a_es = audio_variant ''audio/mp4; codecs=mp4a.40.2'' 160 ''es'' False False ''link5''"

definition ex_basic :: basicInfo where
  "ex_basic = \<lparr>bi_id = ''abc'', bi_title = ''Song'', bi_author = ''Band - Topic'',
      bi_duration = Some 200, bi_is_live = False, bi_short_description = None\<rparr>"

definition ok_status :: playability where
  "ok_status = \<lparr>status = ''OK'', reason = Some [], error_screen = None\<rparr>"

definition ex_info :: info where
  "ex_info = \<lparr>playability_status = ok_status, basic_info = ex_basic,
      adaptive_formats = [v144, v720, v1080, a_orig, a_es]\<rparr>"

definition ex_req :: request where
  "ex_req = \<lparr>o_id = ''abc'', o_format = Some ''vp9'', o_quality = Some ''720'',
      o_dubLang = Some ''es'', o_isAudioOnly = False, o_startTime = None, o_endTime = None,
      o_watermark = None\<rparr>"

text \<open>A \<open>LOGIN_REQUIRED\<close> info without a \<open>reason\<close>, and an info served under another id.\<close>

definition login_info :: info where
  "login_info = ex_info\<lparr>playability_status :=
      \<lparr>status = ''LOGIN_REQUIRED'', reason = None, error_screen = None\<rparr>\<rparr>"

definition stub_info :: info where
  "stub_info = ex_info\<lparr>basic_info := ex_basic\<lparr>bi_id := ''xyz''\<rparr>\<rparr>"

text \<open>
  Collaborators for one call: \<open>Date\<close> on a number is that time value, the one time value
  that is rendered is 5000, and OAuth initialisation takes the stored values as tokens.
\<close>

definition ex_Date_time :: "cval option \<Rightarrow> int option" where
  "ex_Date_time v = (case v of Some (VNum n) \<Rightarrow> Some n | Some (VDate d) \<Rightarrow> d | _ \<Rightarrow> None)"

definition ex_toISOString :: "int \<Rightarrow> string" where
  "ex_toISOString t = ''1970-01-01T00:00:05.000Z''"

definition ex_oauth0 :: oauth_state where
  "ex_oauth0 = \<lparr>client_id = Map.empty, oauth2_tokens = Map.empty\<rparr>"

definition ex_init :: "credentials \<Rightarrow> exn + oauth_state" where
  "ex_init d = Inr \<lparr>client_id = Map.empty, oauth2_tokens = d\<rparr>"

definition ex_ext :: ext where
  "ex_ext = \<lparr>now_check = 1000, now_set = 1005, create = Inr (Client 1),
      fresh_logged_in = False, fresh_oauth = ex_oauth0, oauth_init = ex_init,
      shouldRefreshToken = (\<lambda>oa. False), refreshAccessToken = (\<lambda>oa. Inr oa),
      Date_time = ex_Date_time, toISOString = ex_toISOString,
      getBasicInfo = (\<lambda>i tag. Inr (Some ex_info))\<rparr>"

definition ex_globals :: globals where
  "ex_globals = \<lparr>innertube = None, lastRefreshedAt = None\<rparr>"

text \<open>The plan that the default export returns for \<open>ex_req\<close> on \<open>ex_info\<close>.\<close>

definition ex_meta :: fileMetadata where
  "ex_meta = \<lparr>title = ''Song'', artist = ''Band'', album = None, copyright = None, date = None\<rparr>"

definition ex_merge_plan :: merge_plan where
  "ex_merge_plan =
     \<lparr>merge_urls = [''link2'', ''link5''], merge_startTime = None, merge_endTime = None,
      merge_watermark = None,
      merge_filenameAttributes =
        \<lparr>service = ''youtube'', fa_id = ''abc'', fa_title = ''Song'', fa_author = ''Band'',
         youtubeDubName = Some ''es'', qualityLabel = Some ''720p'',
         resolution = Some ''1280x720'', extension = Some ''mp4'',
         youtubeFormat = Some ''h264''\<rparr>,
      merge_fileMetadata = ex_meta\<rparr>"

text \<open>The same collaborators serving \<open>stub_info\<close>, and what a first call leaves behind.\<close>

definition stub_ext :: ext where
  "stub_ext = ex_ext\<lparr>getBasicInfo := (\<lambda>i tag. Inr (Some stub_info))\<rparr>"

definition ex_session :: session where
  "ex_session = \<lparr>session_client = Client 1, logged_in = False, oauth = ex_oauth0\<rparr>"

definition ex_globals' :: globals where
  "ex_globals' = \<lparr>innertube = Some (Client 1), lastRefreshedAt = Some 1005\<rparr>"

definition ex_audio_plan :: audio_plan where
  "ex_audio_plan =
     \<lparr>audio_urls = ''link5'', audio_startTime = None, audio_endTime = None,
      audio_filenameAttributes =
        \<lparr>service = ''youtube'', fa_id = ''abc'', fa_title = ''Song'', fa_author = ''Band'',
         youtubeDubName = Some ''es'', qualityLabel = None, resolution = None,
         extension = None, youtubeFormat = None\<rparr>,
      audio_fileMetadata = ex_meta, bestAudio = ''m4a''\<rparr>"

text \<open>
  A variant set in which the 720p60 stream has a higher bitrate than the 1080p stream, and
  a request for the quality \<open>max\<close>.
\<close>

definition w720 :: variant where
  "w720 = video_variant ''video/mp4; codecs=avc1.4d4020'' 5000 ''720p60'' 1280 720 ''link6''"

definition w1080 :: variant where
  "w1080 = video_variant ''video/mp4; codecs=avc1.640028'' 3000 ''1080p'' 1920 1080 ''link7''"

definition cx_info :: info where
  "cx_info = ex_info\<lparr>adaptive_formats := [w1080, w720, a_orig]\<rparr>"

definition cx_req :: request where
  "cx_req = ex_req\<lparr>o_format := None, o_quality := Some ''max'', o_dubLang := None\<rparr>"

definition cx_plan :: merge_plan where
  "cx_plan =
     \<lparr>merge_urls = [''link6'', ''link4''], merge_startTime = None, merge_endTime = None,
      merge_watermark = None,
      merge_filenameAttributes =
        \<lparr>service = ''youtube'', fa_id = ''abc'', fa_title = ''Song'', fa_author = ''Band'',
         youtubeDubName = None, qualityLabel = Some ''720p60'',
         resolution = Some ''1280x720'', extension = Some ''mp4'',
         youtubeFormat = Some ''h264''\<rparr>,
      merge_fileMetadata = ex_meta\<rparr>"

text \<open>
  Two Spanish tracks, the one of higher bitrate being its own default, beside the
  original track.
\<close>

definition a_es_dflt :: variant where
  "a_es_dflt = audio_variant ''audio/mp4; codecs=mp4a.40.2'' 192 ''es'' False True ''link8''"

definition dub_info :: info where
  "dub_info = ex_info\<lparr>adaptive_formats := [a_orig, v720, a_es, a_es_dflt]\<rparr>"

definition dub_plan :: merge_plan where
  "dub_plan =
     \<lparr>merge_urls = [''link2'', ''link4''], merge_startTime = None, merge_endTime = None,
      merge_watermark = None,
      merge_filenameAttributes =
        \<lparr>service = ''youtube'', fa_id = ''abc'', fa_title = ''Song'', fa_author = ''Band'',
         youtubeDubName = None, qualityLabel = Some ''720p'',
         resolution = Some ''1280x720'', extension = Some ''mp4'',
         youtubeFormat = Some ''h264''\<rparr>,
      merge_fileMetadata = ex_meta\<rparr>"

text \<open>
  A description of the \<open>Provided to YouTube by\<close> shape whose last paragraph has no space
  after \<open>Released on:\<close>, and the same with the space.
\<close>

definition blank_line :: string where
  "blank_line = [CHR 0x0A, CHR 0x0A]"

definition topic_description :: "string \<Rightarrow> string" where
  "topic_description released =
     ''Provided to YouTube by Label'' @ blank_line @ ''Song - Band'' @ blank_line @ ''Album''
       @ blank_line @ ''(P) 2020 Label'' @ blank_line @ released"

definition topic_basic :: "string \<Rightarrow> basicInfo" where
  "topic_basic released = ex_basic\<lparr>bi_short_description := Some (topic_description released)\<rparr>"

text \<open>
  A stored bundle with both tokens and an expiry of 1000, one without a refresh token,
  collaborators whose token refresh moves the expiry to 5000, and what an authenticated
  call with them leaves behind.
\<close>

definition cookie_a :: credentials where
  "cookie_a = [''access_token'' \<mapsto> VStr ''a'', ''refresh_token'' \<mapsto> VStr ''r'',
               ''expiry_date'' \<mapsto> VNum 1000]"

definition partial_cookie :: credentials where
  "partial_cookie = [''access_token'' \<mapsto> VStr ''a'', ''expiry_date'' \<mapsto> VNum 1000]"

definition ex_refresh :: "oauth_state \<Rightarrow> exn + oauth_state" where
  "ex_refresh oa = Inr (oa\<lparr>oauth2_tokens := (oauth2_tokens oa)(''expiry_date'' \<mapsto> VNum 5000)\<rparr>)"

definition refresh_ext :: ext where
  "refresh_ext = ex_ext\<lparr>shouldRefreshToken := (\<lambda>oa. True), refreshAccessToken := ex_refresh\<rparr>"

definition refreshed_session :: session where
  "refreshed_session =
     \<lparr>session_client = Client 1, logged_in = True,
      oauth = \<lparr>client_id = Map.empty,
               oauth2_tokens = cookie_a(''expiry_date'' \<mapsto> VNum 5000)\<rparr>\<rparr>"

definition kept_session :: session where
  "kept_session =
     \<lparr>session_client = Client 1, logged_in = True,
      oauth = \<lparr>client_id = Map.empty, oauth2_tokens = cookie_a\<rparr>\<rparr>"

text \<open>
  A shared client refreshed at time 0, a call whose clock reads exactly fifteen minutes
  at the check, and a second call shortly after the first one of \<open>ex_ext\<close>.
\<close>

definition warm_globals :: globals where
  "warm_globals = \<lparr>innertube = Some (Client 0), lastRefreshedAt = Some 0\<rparr>"

definition boundary_ext :: ext where
  "boundary_ext = ex_ext\<lparr>now_check := 900000, now_set := 900005\<rparr>"

definition later_ext :: ext where
  "later_ext = ex_ext\<lparr>now_check := 2000, now_set := 2005, create := Inr (Client 2)\<rparr>"

section \<open>Properties\<close>

subsection \<open>Evaluation on concrete inputs\<close>

lemma show_nat_digit: "n < 10 \<Longrightarrow> show_nat n = [digit_char n]"
  by (subst show_nat.simps) simp

lemma show_nat_more: "10 \<le> n \<Longrightarrow> show_nat n = show_nat (n div 10) @ [digit_char (n mod 10)]"
  by (subst show_nat.simps) simp

lemmas ex_defs = ex_host_def ex_req_def ex_info_def ex_basic_def ok_status_def v144_def v720_def
  v1080_def a_orig_def a_es_def video_variant_def audio_variant_def ex_merge_plan_def ex_meta_def
  stub_info_def login_info_def ex_ext_def ex_globals_def ex_oauth0_def ex_init_def
  ex_Date_time_def ex_toISOString_def w720_def w1080_def cx_info_def cx_req_def cx_plan_def
  a_es_dflt_def dub_info_def dub_plan_def blank_line_def topic_description_def topic_basic_def
  ex_refresh_def refresh_ext_def refreshed_session_def kept_session_def warm_globals_def
  boundary_ext_def later_ext_def ex_session_def ex_globals'_def stub_ext_def

lemmas eval_defs = process_def playability_switch_def too_long_def select_streams_def
  select_codec_def default_format_def filterByCodec_def codecList_def inherited_names_def
  build_plan_def
  select_audio_def checkBestAudio_def is_default_track_def truthy_len_def truthy_str_def
  fileMetadata_of_def base_attributes_def audio_response_def merge_response_def
  select_video_def matchingQuality_def qual_def js_split_def nth0_def Number_js_def
  Number_str_def dec_value_def is_digit_def js_trim_def is_ws_def digit_char_def
  show_nat_digit show_nat_more sublist_code es_reason_text_def es_subreason_text_def
  opt_endsWith_def suffix_to_prefix Let_def

lemmas session_defs = youtube_def catch_session_def catch_fetch_def cloneInnertube_def
  acquire_client_def rebuild_def shouldRefreshPlayer_def PLAYER_REFRESH_PERIOD_def
  oauth_login_def refresh_token_def write_back_def time_differs_def written_bundle_def
  updateCookieValues_def transformSessionData_def REQUIRED_VALUES_def is_string_def truthy_def

subsection \<open>Where a plan comes from\<close>

lemma catch_session_plan:
  "catch_session e = Inr r \<Longrightarrow> \<exists>k. r = ErrorResp k False"
  unfolding catch_session_def
  by (auto split: exn.splits option.splits if_splits)

text \<open>A result of the default export that is not an error object is a result of \<open>process\<close>.\<close>

lemma youtube_plan:
  assumes "fst (youtube h x g ck o') = Inr r" and "\<forall>k c. r \<noteq> ErrorResp k c"
  shows "\<exists>tag info. getBasicInfo x (o_id o') tag = Inr (Some info) \<and> process h o' info = Inr r"
proof (cases "cloneInnertube x g ck")
  case (fields res g' ck' ev)
  show ?thesis
  proof (cases res)
    case (Inl e)
    with fields assms(1) have "catch_session e = Inr r" by (simp add: youtube_def)
    from catch_session_plan[OF this] assms(2) show ?thesis by blast
  next
    case (Inr yt)
    let ?tag = "if logged_in yt then ''ANDROID'' else ''IOS''"
    show ?thesis
    proof (cases "getBasicInfo x (o_id o') ?tag")
      case (Inl e)
      with Inr fields assms(1) have "r = catch_fetch e" by (simp add: youtube_def)
      with assms(2) show ?thesis by (auto simp: catch_fetch_def split: exn.splits if_splits)
    next
      case inner: (Inr v)
      show ?thesis
      proof (cases v)
        case None
        with inner Inr fields assms show ?thesis by (auto simp: youtube_def)
      next
        case (Some info)
        with inner Inr fields assms(1) have "process h o' info = Inr r" by (simp add: youtube_def)
        with inner Some show ?thesis by blast
      qed
    qed
  qed
qed

lemma process_plan:
  assumes "process h o' info = Inr r" and "\<forall>k c. r \<noteq> ErrorResp k c"
  shows "select_streams h o' info = Inr r \<and> status (playability_status info) = ''OK''
         \<and> \<not> bi_is_live (basic_info info) \<and> \<not> too_long h (basic_info info)
         \<and> bi_id (basic_info info) = o_id o'"
  using assms unfolding process_def Let_def
  by (auto split: sum.splits option.splits if_splits)

subsection \<open>The playability switch\<close>

text \<open>
  With a reason that ends with neither \<open>bot\<close> nor \<open>age\<close> and an error screen that is not
  \<open>Private video\<close>, a \<open>LOGIN_REQUIRED\<close> info leaves the switch and meets the generic check.
\<close>

lemma login_required_falls_through:
  assumes "status (playability_status info) = ''LOGIN_REQUIRED''"
    and "reason (playability_status info) = Some r"
    and "\<not> suffix ''bot'' r" and "\<not> suffix ''age'' r"
    and "es_reason_text (playability_status info) \<noteq> Some ''Private video''"
  shows "process h o' info = Inr (ErrorResp ''content.video.unavailable'' False)"
  using assms unfolding process_def Let_def playability_switch_def
  by simp

text \<open>
  Claim C8. A \<open>LOGIN_REQUIRED\<close> info that matches none of the three sub-conditions,
  an info without a \<open>reason\<close> included, is said to fall through to the generic check
  without raising. On \<open>login_info\<close>, whose \<open>reason\<close> is absent, the \<open>LOGIN_REQUIRED\<close>
  case reads \<open>playability.reason.endsWith\<close> unguarded and a TypeError leaves the function,
  where the \<open>UNPLAYABLE\<close> case guards the same read with \<open>?.\<close>.
\<close>

theorem login_required_absent_reason_raises:
  "status (playability_status login_info) = ''LOGIN_REQUIRED''
   \<and> reason (playability_status login_info) = None
   \<and> process ex_host ex_req login_info = Inl TypeError
   \<and> fst (youtube ex_host (ex_ext\<lparr>getBasicInfo := (\<lambda>i tag. Inr (Some login_info))\<rparr>)
            ex_globals None ex_req) = Inl TypeError"
  by (simp add: ex_defs eval_defs session_defs)

subsection \<open>The integrity check on the returned id\<close>

lemma process_id_mismatch:
  assumes "status (playability_status info) = ''OK''" and "\<not> bi_is_live (basic_info info)"
    and "\<not> too_long h (basic_info info)" and "bi_id (basic_info info) \<noteq> o_id o'"
  shows "process h o' info = Inr (ErrorResp ''fetch.fail'' True)"
  using assms unfolding process_def Let_def playability_switch_def
  by simp

lemma youtube_fetched:
  assumes "cloneInnertube x g ck = (Inr yt, g', ck', ev)"
    and "getBasicInfo x (o_id o') (if logged_in yt then ''ANDROID'' else ''IOS'') = Inr (Some info)"
  shows "youtube h x g ck o' = (process h o' info, g', ck', ev)"
  using assms by (simp add: youtube_def)

text \<open>
  Claim C4. For a fetched info with status \<open>OK\<close> that is not live and not too long, an
  id other than the requested one makes the function return
  \<open>{error: "fetch.fail", critical: true}\<close> (from \<open>process\<close>, and from the default export
  once the session is built and the info fetched); and whenever the function returns a
  plan, the info it was built from has the requested id.
\<close>

theorem id_mismatch_is_critical:
  "(status (playability_status info) = ''OK'' \<and> \<not> bi_is_live (basic_info info)
      \<and> \<not> too_long h (basic_info info) \<and> bi_id (basic_info info) \<noteq> o_id o'
    \<longrightarrow> process h o' info = Inr (ErrorResp ''fetch.fail'' True)
        \<and> (\<forall>yt g' ck' ev.
              cloneInnertube x g ck = (Inr yt, g', ck', ev)
              \<and> getBasicInfo x (o_id o') (if logged_in yt then ''ANDROID'' else ''IOS'')
                  = Inr (Some info)
              \<longrightarrow> fst (youtube h x g ck o') = Inr (ErrorResp ''fetch.fail'' True)))
   \<and> (\<forall>r. process h o' info = Inr r \<and> (\<forall>k c. r \<noteq> ErrorResp k c)
          \<longrightarrow> bi_id (basic_info info) = o_id o')
   \<and> (\<forall>r. fst (youtube h x g ck o') = Inr r \<and> (\<forall>k c. r \<noteq> ErrorResp k c)
          \<longrightarrow> (\<exists>tag fetched. getBasicInfo x (o_id o') tag = Inr (Some fetched)
                 \<and> process h o' fetched = Inr r
                 \<and> bi_id (basic_info fetched) = o_id o'))"
proof (intro conjI impI allI)
  assume a: "status (playability_status info) = ''OK'' \<and> \<not> bi_is_live (basic_info info)
      \<and> \<not> too_long h (basic_info info) \<and> bi_id (basic_info info) \<noteq> o_id o'"
  then show p: "process h o' info = Inr (ErrorResp ''fetch.fail'' True)"
    by (simp add: process_id_mismatch)
  fix yt g' ck' ev
  assume "cloneInnertube x g ck = (Inr yt, g', ck', ev)
              \<and> getBasicInfo x (o_id o') (if logged_in yt then ''ANDROID'' else ''IOS'')
                  = Inr (Some info)"
  then have "youtube h x g ck o' = (process h o' info, g', ck', ev)"
    by (simp add: youtube_fetched)
  with p show "fst (youtube h x g ck o') = Inr (ErrorResp ''fetch.fail'' True)" by simp
next
  fix r
  assume "process h o' info = Inr r \<and> (\<forall>k c. r \<noteq> ErrorResp k c)"
  then show "bi_id (basic_info info) = o_id o'" using process_plan by blast
next
  fix r
  assume b: "fst (youtube h x g ck o') = Inr r \<and> (\<forall>k c. r \<noteq> ErrorResp k c)"
  then obtain tag fetched where f: "getBasicInfo x (o_id o') tag = Inr (Some fetched)"
    "process h o' fetched = Inr r"
    using youtube_plan by blast
  with b have "bi_id (basic_info fetched) = o_id o'" using process_plan by blast
  with f show "\<exists>tag fetched. getBasicInfo x (o_id o') tag = Inr (Some fetched)
                 \<and> process h o' fetched = Inr r
                 \<and> bi_id (basic_info fetched) = o_id o'" by blast
qed

theorem id_mismatch_is_critical_witness:
  "status (playability_status stub_info) = ''OK'' \<and> \<not> bi_is_live (basic_info stub_info)
   \<and> \<not> too_long ex_host (basic_info stub_info) \<and> bi_id (basic_info stub_info) \<noteq> o_id ex_req
   \<and> process ex_host ex_req stub_info = Inr (ErrorResp ''fetch.fail'' True)
   \<and> cloneInnertube stub_ext ex_globals None = (Inr ex_session, ex_globals', None, [EvCreate])
   \<and> getBasicInfo stub_ext (o_id ex_req) ''IOS'' = Inr (Some stub_info)
   \<and> fst (youtube ex_host stub_ext ex_globals None ex_req) = Inr (ErrorResp ''fetch.fail'' True)
   \<and> process ex_host ex_req ex_info = Inr (MergeResp ex_merge_plan)
   \<and> fst (youtube ex_host ex_ext ex_globals None ex_req) = Inr (MergeResp ex_merge_plan)
   \<and> bi_id (basic_info ex_info) = o_id ex_req"
proof -
  have a: "status (playability_status stub_info) = ''OK'' \<and> \<not> bi_is_live (basic_info stub_info)
      \<and> \<not> too_long ex_host (basic_info stub_info) \<and> bi_id (basic_info stub_info) \<noteq> o_id ex_req"
    by (simp add: ex_defs too_long_def)
  have c: "cloneInnertube stub_ext ex_globals None = (Inr ex_session, ex_globals', None, [EvCreate])"
    by (simp add: stub_ext_def ex_session_def ex_globals'_def ex_defs session_defs)
  have g: "getBasicInfo stub_ext (o_id ex_req)
             (if logged_in ex_session then ''ANDROID'' else ''IOS'') = Inr (Some stub_info)"
    by (simp add: stub_ext_def ex_session_def ex_ext_def)
  have d: "process ex_host ex_req ex_info = Inr (MergeResp ex_merge_plan)"
    by (simp add: ex_defs eval_defs)
  have e: "fst (youtube ex_host ex_ext ex_globals None ex_req) = Inr (MergeResp ex_merge_plan)"
    by (simp add: youtube_fetched[of ex_ext ex_globals None ex_session ex_globals' None "[EvCreate]"] d
          ex_ext_def ex_globals_def ex_session_def ex_globals'_def session_defs ex_oauth0_def)
  note t1 = id_mismatch_is_critical[of stub_info ex_host ex_req stub_ext ex_globals None]
  note t2 = id_mismatch_is_critical[of ex_info ex_host ex_req ex_ext ex_globals None]
  from t1 a have y1: "process ex_host ex_req stub_info = Inr (ErrorResp ''fetch.fail'' True)"
    by blast
  from t1 a c g have y3: "fst (youtube ex_host stub_ext ex_globals None ex_req)
      = Inr (ErrorResp ''fetch.fail'' True)"
    by blast
  from t2 d have z: "bi_id (basic_info ex_info) = o_id ex_req" by blast
  have g': "getBasicInfo stub_ext (o_id ex_req) ''IOS'' = Inr (Some stub_info)"
    by (simp add: stub_ext_def ex_ext_def)
  from a y1 c g' y3 d e z show ?thesis by simp
qed

subsection \<open>Codec families: the default and the fallback\<close>

lemma filterByCodec_h264: "filterByCodec ''h264'' fs = Inr (h264_matches fs)"
  by (simp add: filterByCodec_def codecList_def h264_matches_def)

lemma select_codec_h264: "select_codec (Some ''h264'') fs = Inr (''h264'', h264_matches fs)"
  by (simp add: select_codec_def default_format_def filterByCodec_h264)

lemma select_codec_default:
  assumes "f = None \<or> f = Some []"
  shows "select_codec f fs = Inr (''h264'', h264_matches fs)"
  using assms by (auto simp: select_codec_def default_format_def filterByCodec_h264)

lemma select_codec_fallback:
  assumes "f = ''vp9'' \<or> f = ''av1''" and "filterByCodec f fs = Inr []"
  shows "select_codec (Some f) fs = Inr (''h264'', h264_matches fs)"
  using assms by (auto simp: select_codec_def default_format_def filterByCodec_h264)

lemma build_plan_MergeResp:
  assumes "build_plan h o' info format fs = Inr (MergeResp p)"
  shows "\<exists>bv v a.
           find (\<lambda>i. has_video i \<and> truthy_len (content_length i)) fs = Some bv
         \<and> select_video h (o_quality o') bv fs = Some v
         \<and> fst (select_audio (o_dubLang o') fs) = Some a
         \<and> \<not> o_isAudioOnly o'
         \<and> MergeResp p = merge_response o' format
              (base_attributes o' (fileMetadata_of h (basic_info info))
                 (snd (select_audio (o_dubLang o') fs)))
              (fileMetadata_of h (basic_info info)) v a"
  using assms unfolding build_plan_def Let_def audio_response_def
  by (simp split: option.splits if_splits)

lemma build_plan_AudioResp:
  assumes "build_plan h o' info format fs = Inr (AudioResp p)"
  shows "\<exists>a. fst (select_audio (o_dubLang o') fs) = Some a
         \<and> o_isAudioOnly o'
         \<and> AudioResp p = audio_response o' format
              (base_attributes o' (fileMetadata_of h (basic_info info))
                 (snd (select_audio (o_dubLang o') fs)))
              (fileMetadata_of h (basic_info info)) a"
  using assms unfolding build_plan_def Let_def merge_response_def
  by (simp split: option.splits if_splits)

lemma build_plan_format_irrelevant:
  "build_plan h (o'\<lparr>o_format := f\<rparr>) info format fs = build_plan h o' info format fs"
proof -
  have "base_attributes (o'\<lparr>o_format := f\<rparr>) = base_attributes o'"
    by (rule ext, rule ext) (simp add: base_attributes_def)
  moreover have "audio_response (o'\<lparr>o_format := f\<rparr>) = audio_response o'"
    by (rule ext, rule ext, rule ext, rule ext) (simp add: audio_response_def)
  moreover have "merge_response (o'\<lparr>o_format := f\<rparr>) = merge_response o'"
    by (rule ext, rule ext, rule ext, rule ext, rule ext) (simp add: merge_response_def)
  ultimately show ?thesis
    by (simp add: build_plan_def Let_def cong: if_cong option.case_cong)
qed

text \<open>A plan returned by the default export is built by \<open>build_plan\<close> from the selected codec.\<close>

lemma youtube_plan_built:
  assumes "fst (youtube h x g ck o') = Inr r" and "\<forall>k c. r \<noteq> ErrorResp k c"
  shows "\<exists>tag info format fs.
           getBasicInfo x (o_id o') tag = Inr (Some info)
         \<and> select_codec (o_format o') (adaptive_formats info) = Inr (format, fs)
         \<and> build_plan h o' info format fs = Inr r"
proof -
  from youtube_plan[OF assms] obtain tag info where
    f: "getBasicInfo x (o_id o') tag = Inr (Some info)" and p: "process h o' info = Inr r"
    by blast
  from process_plan[OF p assms(2)] have s: "select_streams h o' info = Inr r" by simp
  then obtain format fs where
    "select_codec (o_format o') (adaptive_formats info) = Inr (format, fs)"
    "build_plan h o' info format fs = Inr r"
    by (auto simp: select_streams_def split: sum.splits prod.splits)
  with f show ?thesis by blast
qed

text \<open>
  Claim C10. When the request carries no format (absent, or the empty string), the
  variants are filtered by the tags \<open>avc1\<close> and \<open>mp4a\<close> of the h264 family, a merge plan
  has the extension \<open>mp4\<close> (and the format \<open>h264\<close>), and an audio plan has \<open>bestAudio\<close>
  \<open>m4a\<close>.
\<close>

theorem absent_format_is_h264:
  assumes "o_format o' = None \<or> o_format o' = Some []"
  shows "select_codec (o_format o') fs = Inr (''h264'', h264_matches fs)
       \<and> (\<forall>p. fst (youtube h x g ck o') = Inr (MergeResp p)
             \<longrightarrow> extension (merge_filenameAttributes p) = Some ''mp4''
               \<and> youtubeFormat (merge_filenameAttributes p) = Some ''h264'')
       \<and> (\<forall>p. fst (youtube h x g ck o') = Inr (AudioResp p) \<longrightarrow> bestAudio p = ''m4a'')"
proof (intro conjI)
  show "select_codec (o_format o') fs = Inr (''h264'', h264_matches fs)"
    using assms by (rule select_codec_default)
next
  show "\<forall>p. fst (youtube h x g ck o') = Inr (MergeResp p)
             \<longrightarrow> extension (merge_filenameAttributes p) = Some ''mp4''
               \<and> youtubeFormat (merge_filenameAttributes p) = Some ''h264''"
  proof (intro allI impI)
    fix p
    assume "fst (youtube h x g ck o') = Inr (MergeResp p)"
    from youtube_plan_built[OF this] obtain info format fs' where
      sc: "select_codec (o_format o') (adaptive_formats info) = Inr (format, fs')"
      and bp: "build_plan h o' info format fs' = Inr (MergeResp p)"
      by auto
    from sc select_codec_default[OF assms, of "adaptive_formats info"] have fmt: "format = ''h264''"
      by simp
    from build_plan_MergeResp[OF bp] obtain attrs meta v a where
      "MergeResp p = merge_response o' format attrs meta v a" by blast
    then have "merge_filenameAttributes p
        = attrs\<lparr>qualityLabel := quality_label v,
                resolution := Some (show_nat (width v) @ ''x'' @ show_nat (height v)),
                extension := map_option container (codecList format),
                youtubeFormat := Some format\<rparr>"
      by (simp add: merge_response_def)
    with fmt show "extension (merge_filenameAttributes p) = Some ''mp4''
                 \<and> youtubeFormat (merge_filenameAttributes p) = Some ''h264''"
      by (simp add: codecList_def)
  qed
next
  show "\<forall>p. fst (youtube h x g ck o') = Inr (AudioResp p) \<longrightarrow> bestAudio p = ''m4a''"
  proof (intro allI impI)
    fix p
    assume "fst (youtube h x g ck o') = Inr (AudioResp p)"
    from youtube_plan_built[OF this] obtain info format fs' where
      sc: "select_codec (o_format o') (adaptive_formats info) = Inr (format, fs')"
      and bp: "build_plan h o' info format fs' = Inr (AudioResp p)"
      by auto
    from sc select_codec_default[OF assms, of "adaptive_formats info"] have fmt: "format = ''h264''"
      by simp
    from build_plan_AudioResp[OF bp] obtain attrs meta a where
      "AudioResp p = audio_response o' format attrs meta a" by blast
    with fmt show "bestAudio p = ''m4a''"
      by (simp add: audio_response_def)
  qed
qed

text \<open>The default export on \<open>ex_info\<close> for a request without a format, merged and audio only.\<close>

theorem absent_format_is_h264_witness:
  "o_format (ex_req\<lparr>o_format := None\<rparr>) = None
   \<and> select_codec (o_format (ex_req\<lparr>o_format := None\<rparr>)) (adaptive_formats ex_info)
       = Inr (''h264'', h264_matches (adaptive_formats ex_info))
   \<and> h264_matches (adaptive_formats ex_info) = [v1080, v720, a_es, a_orig, v144]
   \<and> fst (youtube ex_host ex_ext ex_globals None (ex_req\<lparr>o_format := None\<rparr>))
       = Inr (MergeResp ex_merge_plan)
   \<and> extension (merge_filenameAttributes ex_merge_plan) = Some ''mp4''
   \<and> youtubeFormat (merge_filenameAttributes ex_merge_plan) = Some ''h264''
   \<and> fst (youtube ex_host ex_ext ex_globals None (ex_req\<lparr>o_format := None, o_isAudioOnly := True\<rparr>))
       = Inr (AudioResp ex_audio_plan)
   \<and> bestAudio ex_audio_plan = ''m4a''"
proof -
  have f: "o_format (ex_req\<lparr>o_format := None\<rparr>) = None" by simp
  have f': "o_format (ex_req\<lparr>o_format := None, o_isAudioOnly := True\<rparr>) = None" by simp
  have m: "h264_matches (adaptive_formats ex_info) = [v1080, v720, a_es, a_orig, v144]"
    by (simp add: h264_matches_def ex_defs sublist_code)
  have c: "cloneInnertube ex_ext ex_globals None = (Inr ex_session, ex_globals', None, [EvCreate])"
    by (simp add: ex_session_def ex_globals'_def ex_defs session_defs)
  have g: "getBasicInfo ex_ext i (if logged_in ex_session then ''ANDROID'' else ''IOS'')
             = Inr (Some ex_info)" for i
    by (simp add: ex_session_def ex_ext_def)
  have y: "fst (youtube ex_host ex_ext ex_globals None (ex_req\<lparr>o_format := None\<rparr>))
       = Inr (MergeResp ex_merge_plan)"
    by (simp add: youtube_fetched[OF c g]) (simp add: ex_defs eval_defs)
  have z: "fst (youtube ex_host ex_ext ex_globals None (ex_req\<lparr>o_format := None, o_isAudioOnly := True\<rparr>))
       = Inr (AudioResp ex_audio_plan)"
    by (simp add: youtube_fetched[OF c g]) (simp add: ex_audio_plan_def ex_defs eval_defs)
  note t = absent_format_is_h264[OF disjI1[OF f], of "adaptive_formats ex_info" ex_host ex_ext ex_globals None]
  note t' = absent_format_is_h264[OF disjI1[OF f'], of "adaptive_formats ex_info" ex_host ex_ext ex_globals None]
  from t have s: "select_codec (o_format (ex_req\<lparr>o_format := None\<rparr>)) (adaptive_formats ex_info)
       = Inr (''h264'', h264_matches (adaptive_formats ex_info))" by (rule conjunct1)
  from t y have e: "extension (merge_filenameAttributes ex_merge_plan) = Some ''mp4''
     \<and> youtubeFormat (merge_filenameAttributes ex_merge_plan) = Some ''h264''" by blast
  from t' z have b: "bestAudio ex_audio_plan = ''m4a''" by blast
  from f s m y e z b show ?thesis by simp
qed

lemma process_format_only_via_codec:
  assumes "select_codec f (adaptive_formats info) = select_codec f' (adaptive_formats info)"
  shows "process h (o'\<lparr>o_format := f\<rparr>) info = process h (o'\<lparr>o_format := f'\<rparr>) info"
proof -
  have "select_streams h (o'\<lparr>o_format := f\<rparr>) info = select_streams h (o'\<lparr>o_format := f'\<rparr>) info"
    using assms
    by (simp add: select_streams_def build_plan_format_irrelevant
          split: sum.splits prod.splits)
  then show ?thesis
    by (simp add: process_def Let_def split: sum.splits option.splits)
qed

text \<open>
  Claim C2. When the requested family is vp9 or av1 and its filtering keeps no variant,
  the one retry filters with h264, its result (empty or not) is the list every later
  search runs on, and the whole selection is the one a request for h264 gets.
\<close>

theorem codec_fallback_to_h264:
  assumes "f = ''vp9'' \<or> f = ''av1''"
    and "filterByCodec f (adaptive_formats info) = Inr []"
  shows "select_codec (Some f) (adaptive_formats info)
           = Inr (''h264'', h264_matches (adaptive_formats info))
       \<and> select_codec (Some f) (adaptive_formats info)
           = select_codec (Some ''h264'') (adaptive_formats info)
       \<and> select_streams h (o'\<lparr>o_format := Some f\<rparr>) info
           = build_plan h o' info ''h264'' (h264_matches (adaptive_formats info))
       \<and> process h (o'\<lparr>o_format := Some f\<rparr>) info
           = process h (o'\<lparr>o_format := Some ''h264''\<rparr>) info"
proof -
  have a: "select_codec (Some f) (adaptive_formats info)
           = Inr (''h264'', h264_matches (adaptive_formats info))"
    using assms by (rule select_codec_fallback)
  then have b: "select_codec (Some f) (adaptive_formats info)
           = select_codec (Some ''h264'') (adaptive_formats info)"
    by (simp add: select_codec_h264)
  have c: "select_streams h (o'\<lparr>o_format := Some f\<rparr>) info
           = build_plan h o' info ''h264'' (h264_matches (adaptive_formats info))"
    by (simp add: select_streams_def a build_plan_format_irrelevant)
  from a b c process_format_only_via_codec[OF b] show ?thesis by simp
qed

theorem codec_fallback_to_h264_witness:
  "filterByCodec ''vp9'' (adaptive_formats ex_info) = Inr []
   \<and> select_codec (Some ''vp9'') (adaptive_formats ex_info)
       = Inr (''h264'', h264_matches (adaptive_formats ex_info))
   \<and> h264_matches (adaptive_formats ex_info) = [v1080, v720, a_es, a_orig, v144]
   \<and> process ex_host (ex_req\<lparr>o_format := Some ''vp9''\<rparr>) ex_info
       = process ex_host (ex_req\<lparr>o_format := Some ''h264''\<rparr>) ex_info
   \<and> process ex_host (ex_req\<lparr>o_format := Some ''h264''\<rparr>) ex_info = Inr (MergeResp ex_merge_plan)"
proof -
  have e: "filterByCodec ''vp9'' (adaptive_formats ex_info) = Inr []"
    by (simp add: filterByCodec_def codecList_def ex_defs sublist_code)
  have m: "h264_matches (adaptive_formats ex_info) = [v1080, v720, a_es, a_orig, v144]"
    by (simp add: h264_matches_def ex_defs sublist_code)
  have p: "process ex_host (ex_req\<lparr>o_format := Some ''h264''\<rparr>) ex_info = Inr (MergeResp ex_merge_plan)"
    by (simp add: ex_defs eval_defs)
  from codec_fallback_to_h264[OF disjI1[OF refl] e, of ex_host ex_req] e m p
  show ?thesis by simp
qed

subsection \<open>Video selection and the quality clamp\<close>

lemma split_all_first:
  "\<exists>rest. split_all [c] acc s = (rev acc @ takeWhile (\<lambda>d. d \<noteq> c) s) # rest"
proof (induction s arbitrary: acc)
  case Nil
  show ?case by simp
next
  case (Cons d s)
  show ?case
  proof (cases "d = c")
    case True
    then show ?thesis by simp
  next
    case False
    from Cons[of "d # acc"] obtain rest where
      "split_all [c] (d # acc) s = (rev (d # acc) @ takeWhile (\<lambda>d. d \<noteq> c) s) # rest" ..
    with False show ?thesis by simp
  qed
qed

lemma first_piece: "nth0 (js_split [c] 2 s) = Some (takeWhile (\<lambda>d. d \<noteq> c) s)"
proof -
  from split_all_first[of c "[]" s] obtain rest where
    "split_all [c] [] s = takeWhile (\<lambda>d. d \<noteq> c) s # rest" by auto
  then show ?thesis by (simp add: js_split_def nth0_def numeral_2_eq_2)
qed

lemma takeWhile_twice:
  "takeWhile Q (takeWhile P xs) = takeWhile (\<lambda>x. P x \<and> Q x) xs"
  by (induction xs) auto

text \<open>The two splits of \<open>qual\<close> yield the prefix before the first \<open>p\<close> or \<open>s\<close>.\<close>

lemma qual_label_prefix:
  "qual i = (case quality_label i of
               None \<Rightarrow> None
             | Some l \<Rightarrow> if l = [] then None else Some (label_prefix l))"
  by (simp add: qual_def truthy_str_def first_piece takeWhile_twice label_prefix_def
        split: option.splits)

lemma matchingQuality_max:
  "matchingQuality h (Some ''max'') bv = matchingQuality h (Some ''9000'') bv"
  by (simp add: matchingQuality_def)

lemma Number_9000: "Number_js other (Some ''9000'') = Fin 9000"
  by (simp add: Number_js_def Number_str_def dec_value_def is_digit_def)

text \<open>
  What \<open>select_codec\<close> returns is a sublist of the given variants in descending order of
  bitrate, so the first qualifying video of it has the highest bitrate among the
  qualifying videos.
\<close>

lemma filterByCodec_sorted:
  assumes "filterByCodec format formats = Inr fs"
  shows "sorted (map (\<lambda>e. - bitrate e) fs) \<and> set fs \<subseteq> set formats"
  using assms
  by (auto simp: filterByCodec_def split: option.splits if_splits)

lemma select_codec_sorted:
  assumes "select_codec f formats = Inr (format, fs)"
  shows "sorted (map (\<lambda>e. - bitrate e) fs) \<and> set fs \<subseteq> set formats"
proof -
  from assms obtain name where "filterByCodec name formats = Inr fs"
    by (auto simp: select_codec_def Let_def split: sum.splits if_splits)
  then show ?thesis by (rule filterByCodec_sorted)
qed

lemma first_of_sorted_is_highest:
  assumes s: "sorted (map (\<lambda>e. - bitrate e) fs)"
    and f: "find Q fs = Some bv" and i: "i \<in> set fs" and q: "Q i"
  shows "bitrate i \<le> bitrate bv"
proof -
  from f obtain n where n: "n < length fs" "fs ! n = bv" "\<forall>m<n. \<not> Q (fs ! m)"
    by (auto simp: find_Some_iff)
  from i obtain k where k: "k < length fs" "fs ! k = i" by (auto simp: in_set_conv_nth)
  from n(3) k(2) q have "n \<le> k" by (metis not_le_imp_less)
  with s k(1) have "map (\<lambda>e. - bitrate e) fs ! n \<le> map (\<lambda>e. - bitrate e) fs ! k"
    by (simp add: sorted_iff_nth_mono)
  with n(1,2) k show ?thesis by simp
qed

text \<open>
  Claim C1, as amended. Let \<open>fs\<close> be the variants that the codec selection keeps, and \<open>bv\<close>
  the best video: the first variant of \<open>fs\<close> with video and a non-zero content length.
  Then \<open>bv\<close> is among the given variants and no qualifying video of \<open>fs\<close> has a higher
  bitrate; the parsed quality of a variant is the prefix of its label before the first \<open>p\<close>
  or \<open>s\<close>; \<open>max\<close> stands for \<open>9000\<close>; a requested quality whose number exceeds the number
  of the best video's parsed quality is replaced by that parsed quality; the video of the
  merge plan is the first variant of \<open>fs\<close> with that quality, with video and without
  audio. For \<open>max\<close> and a best video of a quality below 9000 this is the first video-only
  variant whose parsed quality equals the best video's; nothing makes it the highest
  label present.
\<close>

theorem quality_clamp_selection:
  assumes "select_codec f formats = Inr (format, fs)"
    and "find (\<lambda>i. has_video i \<and> truthy_len (content_length i)) fs = Some bv"
  shows
   "bv \<in> set formats \<and> has_video bv \<and> truthy_len (content_length bv)
    \<and> (\<forall>i. i \<in> set fs \<and> has_video i \<and> truthy_len (content_length i)
          \<longrightarrow> bitrate i \<le> bitrate bv)
    \<and> (\<forall>i. qual i = (case quality_label i of
                     None \<Rightarrow> None
                   | Some l \<Rightarrow> if l = [] then None else Some (label_prefix l)))
    \<and> matchingQuality h (Some ''max'') bv = matchingQuality h (Some ''9000'') bv
    \<and> (q \<noteq> Some ''max'' \<longrightarrow>
         matchingQuality h q bv
           = (if js_gt (Number_js (Number_other h) q) (Number_js (Number_other h) (qual bv))
              then qual bv else q))
    \<and> select_video h q bv fs
         = find (\<lambda>i. qual i = matchingQuality h q bv \<and> has_video i \<and> \<not> has_audio i) fs
    \<and> (\<forall>v. select_video h q bv fs = Some v \<longrightarrow>
          (\<exists>n<length fs. fs ! n = v \<and> qual v = matchingQuality h q bv
              \<and> has_video v \<and> \<not> has_audio v
              \<and> (\<forall>m<n. \<not> (qual (fs ! m) = matchingQuality h q bv
                            \<and> has_video (fs ! m) \<and> \<not> has_audio (fs ! m)))))
    \<and> (\<forall>b. qual bv = Some b \<and> js_gt (Fin 9000) (Number_str (Number_other h) b) \<longrightarrow>
          select_video h (Some ''max'') bv fs
            = find (\<lambda>i. qual i = Some b \<and> has_video i \<and> \<not> has_audio i) fs)
    \<and> (\<forall>p. build_plan h o' info format fs = Inr (MergeResp p) \<longrightarrow>
          (\<exists>v. select_video h (o_quality o') bv fs = Some v
               \<and> hd (merge_urls p) = url v
               \<and> qualityLabel (merge_filenameAttributes p) = quality_label v))"
proof (intro conjI)
  note srt = select_codec_sorted[OF assms(1)]
  from assms(2) have m: "bv \<in> set fs" "has_video bv" "truthy_len (content_length bv)"
    by (auto simp: find_Some_iff)
  from m(1) srt show "bv \<in> set formats" by blast
  from m show "has_video bv" "truthy_len (content_length bv)" by simp_all
  show "\<forall>i. i \<in> set fs \<and> has_video i \<and> truthy_len (content_length i)
          \<longrightarrow> bitrate i \<le> bitrate bv"
  proof (intro allI impI)
    fix i
    assume "i \<in> set fs \<and> has_video i \<and> truthy_len (content_length i)"
    then have "i \<in> set fs" and "has_video i \<and> truthy_len (content_length i)" by simp_all
    with first_of_sorted_is_highest[OF conjunct1[OF srt] assms(2), of i]
    show "bitrate i \<le> bitrate bv" by simp
  qed
  show "\<forall>i. qual i = (case quality_label i of
                     None \<Rightarrow> None
                   | Some l \<Rightarrow> if l = [] then None else Some (label_prefix l))"
    by (simp add: qual_label_prefix)
  show "matchingQuality h (Some ''max'') bv = matchingQuality h (Some ''9000'') bv"
    by (rule matchingQuality_max)
  show "q \<noteq> Some ''max'' \<longrightarrow>
         matchingQuality h q bv
           = (if js_gt (Number_js (Number_other h) q) (Number_js (Number_other h) (qual bv))
              then qual bv else q)"
    by (simp add: matchingQuality_def)
  show "select_video h q bv fs
         = find (\<lambda>i. qual i = matchingQuality h q bv \<and> has_video i \<and> \<not> has_audio i) fs"
    by (simp add: select_video_def)
  show "\<forall>v. select_video h q bv fs = Some v \<longrightarrow>
          (\<exists>n<length fs. fs ! n = v \<and> qual v = matchingQuality h q bv
              \<and> has_video v \<and> \<not> has_audio v
              \<and> (\<forall>m<n. \<not> (qual (fs ! m) = matchingQuality h q bv
                            \<and> has_video (fs ! m) \<and> \<not> has_audio (fs ! m))))"
    unfolding select_video_def find_Some_iff by blast
  show "\<forall>b. qual bv = Some b \<and> js_gt (Fin 9000) (Number_str (Number_other h) b) \<longrightarrow>
          select_video h (Some ''max'') bv fs
            = find (\<lambda>i. qual i = Some b \<and> has_video i \<and> \<not> has_audio i) fs"
    by (simp add: select_video_def matchingQuality_def Number_9000)
       (simp add: Number_js_def)
  show "\<forall>p. build_plan h o' info format fs = Inr (MergeResp p) \<longrightarrow>
          (\<exists>v. select_video h (o_quality o') bv fs = Some v
               \<and> hd (merge_urls p) = url v
               \<and> qualityLabel (merge_filenameAttributes p) = quality_label v)"
  proof (intro allI impI)
    fix p
    assume "build_plan h o' info format fs = Inr (MergeResp p)"
    from build_plan_MergeResp[OF this] assms(2) obtain attrs meta v a where
      v: "select_video h (o_quality o') bv fs = Some v"
      and p: "MergeResp p = merge_response o' format attrs meta v a"
      by auto
    from p have "merge_urls p = [url v, url a]"
      and "qualityLabel (merge_filenameAttributes p) = quality_label v"
      by (simp_all add: merge_response_def)
    with v show "\<exists>v. select_video h (o_quality o') bv fs = Some v
               \<and> hd (merge_urls p) = url v
               \<and> qualityLabel (merge_filenameAttributes p) = quality_label v"
      by simp
  qed
qed

theorem quality_clamp_selection_witness:
  "select_codec (Some ''vp9'') (adaptive_formats ex_info)
     = Inr (''h264'', [v1080, v720, a_es, a_orig, v144])
   \<and> find (\<lambda>i. has_video i \<and> truthy_len (content_length i)) [v1080, v720, a_es, a_orig, v144]
       = Some v1080
   \<and> v720 \<in> set [v1080, v720, a_es, a_orig, v144] \<and> has_video v720
   \<and> truthy_len (content_length v720) \<and> bitrate v720 \<le> bitrate v1080
   \<and> qual v1080 = Some ''1080''
   \<and> js_gt (Fin 9000) (Number_str (Number_other ex_host) ''1080'')
   \<and> select_video ex_host (Some ''max'') v1080 [v1080, v720, a_es, a_orig, v144]
       = find (\<lambda>i. qual i = Some ''1080'' \<and> has_video i \<and> \<not> has_audio i)
           [v1080, v720, a_es, a_orig, v144]
   \<and> select_video ex_host (Some ''max'') v1080 [v1080, v720, a_es, a_orig, v144] = Some v1080
   \<and> Some ''2000'' \<noteq> Some ''max''
   \<and> matchingQuality ex_host (Some ''2000'') v1080 = Some ''1080''
   \<and> select_video ex_host (Some ''720'') v1080 [v1080, v720, a_es, a_orig, v144] = Some v720
   \<and> build_plan ex_host ex_req ex_info ''h264'' [v1080, v720, a_es, a_orig, v144]
       = Inr (MergeResp ex_merge_plan)
   \<and> hd (merge_urls ex_merge_plan) = url v720"
proof -
  let ?fs = "[v1080, v720, a_es, a_orig, v144]"
  have c: "select_codec (Some ''vp9'') (adaptive_formats ex_info) = Inr (''h264'', ?fs)"
    by (simp add: ex_defs eval_defs)
  have b: "find (\<lambda>i. has_video i \<and> truthy_len (content_length i)) ?fs = Some v1080"
    by (simp add: ex_defs truthy_len_def)
  have i: "v720 \<in> set ?fs" "has_video v720" "truthy_len (content_length v720)"
    by (simp_all add: ex_defs truthy_len_def)
  have q: "qual v1080 = Some ''1080''"
    by (simp add: ex_defs eval_defs)
  have g: "js_gt (Fin 9000) (Number_str (Number_other ex_host) ''1080'')"
    by (simp add: ex_defs eval_defs)
  have m: "select_video ex_host (Some ''max'') v1080 ?fs = Some v1080"
    by (simp add: ex_defs eval_defs)
  have d: "matchingQuality ex_host (Some ''2000'') v1080 = Some ''1080''"
    by (simp add: ex_defs eval_defs)
  have s: "select_video ex_host (Some ''720'') v1080 ?fs = Some v720"
    by (simp add: ex_defs eval_defs)
  have p: "build_plan ex_host ex_req ex_info ''h264'' ?fs = Inr (MergeResp ex_merge_plan)"
    by (simp add: ex_defs eval_defs)
  note t = quality_clamp_selection[OF c b, of ex_host "Some ''720''" ex_req ex_info]
  from t i have r: "bitrate v720 \<le> bitrate v1080" by blast
  from t q g have x: "select_video ex_host (Some ''max'') v1080 ?fs
       = find (\<lambda>i. qual i = Some ''1080'' \<and> has_video i \<and> \<not> has_audio i) ?fs"
    by blast
  from t p have "\<exists>v. select_video ex_host (o_quality ex_req) v1080 ?fs = Some v
               \<and> hd (merge_urls ex_merge_plan) = url v"
    by blast
  moreover have "o_quality ex_req = Some ''720''" by (simp add: ex_req_def)
  ultimately have u: "hd (merge_urls ex_merge_plan) = url v720" using s by simp
  from c b i r q g x m d s p u show ?thesis by simp
qed

text \<open>
  On \<open>cx_info\<close> the request for \<open>max\<close> is answered with the 720p60 stream, the one of
  highest bitrate, although a video-only 1080p stream of the same family is present.
\<close>

theorem max_is_not_highest_label_counterexample:
  "process ex_host cx_req cx_info = Inr (MergeResp cx_plan)
   \<and> o_quality cx_req = Some ''max''
   \<and> qualityLabel (merge_filenameAttributes cx_plan) = Some ''720p60''
   \<and> w1080 \<in> set (adaptive_formats cx_info)
   \<and> has_video w1080 \<and> \<not> has_audio w1080 \<and> truthy_len (content_length w1080)
   \<and> sublist ''avc1'' (mime_type w1080)
   \<and> quality_label w1080 = Some ''1080p''
   \<and> qual w1080 = Some ''1080'' \<and> qual w720 = Some ''720''
   \<and> js_gt (Number_js (Number_other ex_host) (qual w1080))
            (Number_js (Number_other ex_host) (qual w720))"
  by (simp add: ex_defs eval_defs)

subsection \<open>Audio selection\<close>

lemma select_audio_eq:
  "select_audio dubLang fs =
     (if truthy_str dubLang
         \<and> (\<exists>d. find (\<lambda>i. checkBestAudio i \<and> language i = dubLang
                            \<and> audio_track i \<noteq> None) fs = Some d
                \<and> \<not> is_default_track d)
      then (find (\<lambda>i. checkBestAudio i \<and> language i = dubLang \<and> audio_track i \<noteq> None) fs,
            True)
      else (case find (\<lambda>i. checkBestAudio i \<and> is_original i) fs of
              Some a \<Rightarrow> Some a
            | None \<Rightarrow> find checkBestAudio fs, False))"
  by (auto simp: select_audio_def Let_def split: option.splits)

text \<open>
  Claim C3, as amended. The audio track is, in this order of precedence: when a dub
  language is requested, the first audio-only track that matches the language and carries
  audio-track metadata, provided that this first match is not its own default (the
  override, which is when \<open>isDubbed\<close> is set and the only case in which the plan's
  \<open>youtubeDubName\<close> is the requested language); otherwise the first audio-only track
  flagged \<open>is_original\<close>; otherwise the first audio-only track. A first match that is its
  own default never replaces the original track, and an override always yields a track
  that the claim's own wording admits.
\<close>

theorem audio_precedence:
  "select_audio dubLang fs =
     (if truthy_str dubLang
         \<and> (\<exists>d. find (\<lambda>i. checkBestAudio i \<and> language i = dubLang
                            \<and> audio_track i \<noteq> None) fs = Some d
                \<and> \<not> is_default_track d)
      then (find (\<lambda>i. checkBestAudio i \<and> language i = dubLang \<and> audio_track i \<noteq> None) fs,
            True)
      else (case find (\<lambda>i. checkBestAudio i \<and> is_original i) fs of
              Some a \<Rightarrow> Some a
            | None \<Rightarrow> find checkBestAudio fs, False))
   \<and> (\<forall>d a. find (\<lambda>i. checkBestAudio i \<and> language i = dubLang \<and> audio_track i \<noteq> None) fs
               = Some d
            \<and> is_default_track d
            \<and> find (\<lambda>i. checkBestAudio i \<and> is_original i) fs = Some a
          \<longrightarrow> select_audio dubLang fs = (Some a, False))
   \<and> (snd (select_audio dubLang fs) \<longrightarrow>
         truthy_str dubLang
         \<and> (\<exists>d. fst (select_audio dubLang fs) = Some d \<and> d \<in> set fs \<and> checkBestAudio d
                \<and> language d = dubLang \<and> audio_track d \<noteq> None \<and> \<not> is_default_track d)
         \<and> dub_track_as_claimed dubLang fs \<noteq> None)
   \<and> (\<forall>p. build_plan h o' info format fs = Inr (MergeResp p) \<longrightarrow>
          youtubeDubName (merge_filenameAttributes p)
            = (if snd (select_audio (o_dubLang o') fs) then o_dubLang o' else None)
          \<and> (\<exists>a. fst (select_audio (o_dubLang o') fs) = Some a \<and> merge_urls p ! 1 = url a))
   \<and> (\<forall>p. build_plan h o' info format fs = Inr (AudioResp p) \<longrightarrow>
          youtubeDubName (audio_filenameAttributes p)
            = (if snd (select_audio (o_dubLang o') fs) then o_dubLang o' else None)
          \<and> (\<exists>a. fst (select_audio (o_dubLang o') fs) = Some a \<and> audio_urls p = url a))"
proof (intro conjI)
  let ?dub = "find (\<lambda>i. checkBestAudio i \<and> language i = dubLang \<and> audio_track i \<noteq> None) fs"
  show "select_audio dubLang fs =
     (if truthy_str dubLang \<and> (\<exists>d. ?dub = Some d \<and> \<not> is_default_track d)
      then (?dub, True)
      else (case find (\<lambda>i. checkBestAudio i \<and> is_original i) fs of
              Some a \<Rightarrow> Some a
            | None \<Rightarrow> find checkBestAudio fs, False))"
    by (rule select_audio_eq)
  show "\<forall>d a. ?dub = Some d \<and> is_default_track d
            \<and> find (\<lambda>i. checkBestAudio i \<and> is_original i) fs = Some a
          \<longrightarrow> select_audio dubLang fs = (Some a, False)"
    by (simp add: select_audio_eq)
  show "snd (select_audio dubLang fs) \<longrightarrow>
         truthy_str dubLang
         \<and> (\<exists>d. fst (select_audio dubLang fs) = Some d \<and> d \<in> set fs \<and> checkBestAudio d
                \<and> language d = dubLang \<and> audio_track d \<noteq> None \<and> \<not> is_default_track d)
         \<and> dub_track_as_claimed dubLang fs \<noteq> None"
  proof
    assume "snd (select_audio dubLang fs)"
    then have t: "truthy_str dubLang" and "\<exists>d. ?dub = Some d \<and> \<not> is_default_track d"
      by (simp_all add: select_audio_eq split: if_splits)
    then obtain d where d: "?dub = Some d" "\<not> is_default_track d" by blast
    from d(1) have m: "d \<in> set fs" "checkBestAudio d" "language d = dubLang" "audio_track d \<noteq> None"
      by (auto simp: find_Some_iff)
    from t d have f: "fst (select_audio dubLang fs) = Some d"
      by (simp add: select_audio_eq)
    from m d(2) have "\<exists>x\<in>set fs. checkBestAudio x \<and> language x = dubLang
        \<and> audio_track x \<noteq> None \<and> \<not> is_default_track x"
      by blast
    then have "dub_track_as_claimed dubLang fs \<noteq> None"
      by (auto simp: dub_track_as_claimed_def find_None_iff)
    with t f m d(2) show "truthy_str dubLang
         \<and> (\<exists>d. fst (select_audio dubLang fs) = Some d \<and> d \<in> set fs \<and> checkBestAudio d
                \<and> language d = dubLang \<and> audio_track d \<noteq> None \<and> \<not> is_default_track d)
         \<and> dub_track_as_claimed dubLang fs \<noteq> None"
      by blast
  qed
  show "\<forall>p. build_plan h o' info format fs = Inr (MergeResp p) \<longrightarrow>
          youtubeDubName (merge_filenameAttributes p)
            = (if snd (select_audio (o_dubLang o') fs) then o_dubLang o' else None)
          \<and> (\<exists>a. fst (select_audio (o_dubLang o') fs) = Some a \<and> merge_urls p ! 1 = url a)"
  proof (intro allI impI)
    fix p
    assume "build_plan h o' info format fs = Inr (MergeResp p)"
    from build_plan_MergeResp[OF this] obtain v a where
      a: "fst (select_audio (o_dubLang o') fs) = Some a"
      and p: "MergeResp p = merge_response o' format
              (base_attributes o' (fileMetadata_of h (basic_info info))
                 (snd (select_audio (o_dubLang o') fs)))
              (fileMetadata_of h (basic_info info)) v a"
      by blast
    from p have "merge_urls p = [url v, url a]"
      and "youtubeDubName (merge_filenameAttributes p)
            = (if snd (select_audio (o_dubLang o') fs) then o_dubLang o' else None)"
      by (simp_all add: merge_response_def base_attributes_def)
    with a show "youtubeDubName (merge_filenameAttributes p)
            = (if snd (select_audio (o_dubLang o') fs) then o_dubLang o' else None)
          \<and> (\<exists>a. fst (select_audio (o_dubLang o') fs) = Some a \<and> merge_urls p ! 1 = url a)"
      by simp
  qed
  show "\<forall>p. build_plan h o' info format fs = Inr (AudioResp p) \<longrightarrow>
          youtubeDubName (audio_filenameAttributes p)
            = (if snd (select_audio (o_dubLang o') fs) then o_dubLang o' else None)
          \<and> (\<exists>a. fst (select_audio (o_dubLang o') fs) = Some a \<and> audio_urls p = url a)"
  proof (intro allI impI)
    fix p
    assume "build_plan h o' info format fs = Inr (AudioResp p)"
    from build_plan_AudioResp[OF this] obtain a where
      a: "fst (select_audio (o_dubLang o') fs) = Some a"
      and p: "AudioResp p = audio_response o' format
              (base_attributes o' (fileMetadata_of h (basic_info info))
                 (snd (select_audio (o_dubLang o') fs)))
              (fileMetadata_of h (basic_info info)) a"
      by blast
    from p have "audio_urls p = url a"
      and "youtubeDubName (audio_filenameAttributes p)
            = (if snd (select_audio (o_dubLang o') fs) then o_dubLang o' else None)"
      by (simp_all add: audio_response_def base_attributes_def)
    with a show "youtubeDubName (audio_filenameAttributes p)
            = (if snd (select_audio (o_dubLang o') fs) then o_dubLang o' else None)
          \<and> (\<exists>a. fst (select_audio (o_dubLang o') fs) = Some a \<and> audio_urls p = url a)"
      by simp
  qed
qed


theorem audio_precedence_witness:
  "snd (select_audio (Some ''es'') [v1080, v720, a_es, a_orig, v144])
   \<and> truthy_str (Some ''es'')
   \<and> fst (select_audio (Some ''es'') [v1080, v720, a_es, a_orig, v144]) = Some a_es
   \<and> dub_track_as_claimed (Some ''es'') [v1080, v720, a_es, a_orig, v144] \<noteq> None
   \<and> find (\<lambda>i. checkBestAudio i \<and> language i = Some ''es'' \<and> audio_track i \<noteq> None)
        [v720, a_es_dflt, a_es, a_orig] = Some a_es_dflt
   \<and> is_default_track a_es_dflt
   \<and> find (\<lambda>i. checkBestAudio i \<and> is_original i) [v720, a_es_dflt, a_es, a_orig] = Some a_orig
   \<and> select_audio (Some ''es'') [v720, a_es_dflt, a_es, a_orig] = (Some a_orig, False)
   \<and> build_plan ex_host ex_req ex_info ''h264'' [v1080, v720, a_es, a_orig, v144]
       = Inr (MergeResp ex_merge_plan)
   \<and> youtubeDubName (merge_filenameAttributes ex_merge_plan) = Some ''es''
   \<and> merge_urls ex_merge_plan ! 1 = url a_es
   \<and> build_plan ex_host (ex_req\<lparr>o_isAudioOnly := True\<rparr>) ex_info ''h264''
         [v1080, v720, a_es, a_orig, v144]
       = Inr (AudioResp ex_audio_plan)
   \<and> youtubeDubName (audio_filenameAttributes ex_audio_plan) = Some ''es''
   \<and> audio_urls ex_audio_plan = url a_es"
proof -
  let ?fs = "[v1080, v720, a_es, a_orig, v144]"
  let ?gs = "[v720, a_es_dflt, a_es, a_orig]"
  have s: "select_audio (Some ''es'') ?fs = (Some a_es, True)"
    by (simp add: ex_defs eval_defs)
  have d: "find (\<lambda>i. checkBestAudio i \<and> language i = Some ''es'' \<and> audio_track i \<noteq> None) ?gs
      = Some a_es_dflt"
    by (simp add: ex_defs eval_defs)
  have i: "is_default_track a_es_dflt" by (simp add: ex_defs eval_defs)
  have g: "find (\<lambda>i. checkBestAudio i \<and> is_original i) ?gs = Some a_orig"
    by (simp add: ex_defs eval_defs)
  have m: "build_plan ex_host ex_req ex_info ''h264'' ?fs = Inr (MergeResp ex_merge_plan)"
    by (simp add: ex_defs eval_defs)
  have a: "build_plan ex_host (ex_req\<lparr>o_isAudioOnly := True\<rparr>) ex_info ''h264'' ?fs
      = Inr (AudioResp ex_audio_plan)"
    by (simp add: ex_audio_plan_def ex_defs eval_defs)
  have l: "o_dubLang ex_req = Some ''es''" "o_dubLang (ex_req\<lparr>o_isAudioOnly := True\<rparr>) = Some ''es''"
    by (simp_all add: ex_req_def)
  note t = audio_precedence[of "Some ''es''" ?fs ex_host ex_req ex_info "''h264''"]
  note t' = audio_precedence[of "Some ''es''" ?fs ex_host "ex_req\<lparr>o_isAudioOnly := True\<rparr>"
      ex_info "''h264''"]
  note u = audio_precedence[of "Some ''es''" ?gs ex_host ex_req ex_info "''h264''"]
  from s have s1: "snd (select_audio (Some ''es'') ?fs)"
    and s2: "fst (select_audio (Some ''es'') ?fs) = Some a_es" by simp_all
  from t s1 have c: "truthy_str (Some ''es'')"
    "dub_track_as_claimed (Some ''es'') ?fs \<noteq> None" by blast+
  from u d i g have n: "select_audio (Some ''es'') ?gs = (Some a_orig, False)" by blast
  from t m have "youtubeDubName (merge_filenameAttributes ex_merge_plan)
            = (if snd (select_audio (o_dubLang ex_req) ?fs) then o_dubLang ex_req else None)
          \<and> (\<exists>a. fst (select_audio (o_dubLang ex_req) ?fs) = Some a
                \<and> merge_urls ex_merge_plan ! 1 = url a)"
    by blast
  with l s have y: "youtubeDubName (merge_filenameAttributes ex_merge_plan) = Some ''es''"
    "merge_urls ex_merge_plan ! 1 = url a_es" by simp_all
  from t' a have "youtubeDubName (audio_filenameAttributes ex_audio_plan)
            = (if snd (select_audio (o_dubLang (ex_req\<lparr>o_isAudioOnly := True\<rparr>)) ?fs)
               then o_dubLang (ex_req\<lparr>o_isAudioOnly := True\<rparr>) else None)
          \<and> (\<exists>a. fst (select_audio (o_dubLang (ex_req\<lparr>o_isAudioOnly := True\<rparr>)) ?fs) = Some a
                \<and> audio_urls ex_audio_plan = url a)"
    by blast
  with l s have z: "youtubeDubName (audio_filenameAttributes ex_audio_plan) = Some ''es''"
    "audio_urls ex_audio_plan = url a_es" by simp_all
  from s1 c(1) s2 c(2) d i g n m y a z show ?thesis by simp
qed

text \<open>
  On \<open>dub_info\<close>, with the dub language \<open>es\<close> requested, a Spanish audio-only track with
  metadata that is not its own default exists (\<open>a_es\<close>), so the claim's wording has it
  override the original track; the source looks at the first Spanish track only
  (\<open>a_es_dflt\<close>, its own default), keeps the original track and leaves the plan undubbed.
\<close>

theorem dub_override_first_match_counterexample:
  "h264_matches (adaptive_formats dub_info) = [v720, a_es_dflt, a_es, a_orig]
   \<and> dub_track_as_claimed (Some ''es'') [v720, a_es_dflt, a_es, a_orig] = Some a_es
   \<and> select_audio (Some ''es'') [v720, a_es_dflt, a_es, a_orig] = (Some a_orig, False)
   \<and> o_dubLang ex_req = Some ''es''
   \<and> process ex_host ex_req dub_info = Inr (MergeResp dub_plan)
   \<and> youtubeDubName (merge_filenameAttributes dub_plan) = None
   \<and> merge_urls dub_plan = [url v720, url a_orig]"
  by (simp add: h264_matches_def dub_track_as_claimed_def ex_defs eval_defs)

subsection \<open>Extended file metadata\<close>

text \<open>When the extended fields are set, and to what.\<close>

lemma fileMetadata_extended:
  "album (fileMetadata_of h b) =
     (case bi_short_description b of
        None \<Rightarrow> None
      | Some d \<Rightarrow>
          if prefix ''Provided to YouTube by'' d \<and> length (js_split [CHR 0x0A, CHR 0x0A] 5 d) = 5
          then Some (js_split [CHR 0x0A, CHR 0x0A] 5 d ! 2) else None)"
  "copyright (fileMetadata_of h b) =
     (case bi_short_description b of
        None \<Rightarrow> None
      | Some d \<Rightarrow>
          if prefix ''Provided to YouTube by'' d \<and> length (js_split [CHR 0x0A, CHR 0x0A] 5 d) = 5
          then Some (js_split [CHR 0x0A, CHR 0x0A] 5 d ! 3) else None)"
  "date (fileMetadata_of h b) =
     (case bi_short_description b of
        None \<Rightarrow> None
      | Some d \<Rightarrow>
          if prefix ''Provided to YouTube by'' d \<and> length (js_split [CHR 0x0A, CHR 0x0A] 5 d) = 5
             \<and> prefix ''Released on:'' (js_split [CHR 0x0A, CHR 0x0A] 5 d ! 4)
          then Some (js_trim (js_replace ''Released on: '' []
                       (js_split [CHR 0x0A, CHR 0x0A] 5 d ! 4)))
          else None)"
  by (simp_all add: fileMetadata_of_def Let_def split: option.splits)

text \<open>
  With a space after the colon, removing \<open>Released on: \<close> and trimming is stripping the
  prefix \<open>Released on:\<close> and trimming.
\<close>

lemma js_trim_space: "js_trim (CHR '' '' # r) = js_trim r"
  by (simp add: js_trim_def is_ws_def)

lemma released_with_space:
  assumes "prefix ''Released on: '' s"
  shows "js_trim (js_replace ''Released on: '' [] s) = js_trim (drop (length ''Released on:'') s)"
proof -
  from assms obtain r where s: "s = ''Released on: '' @ r" by (auto simp: prefix_def)
  have "js_replace ''Released on: '' [] s = r" unfolding s by simp
  moreover have "drop (length ''Released on:'') s = CHR '' '' # r" unfolding s by simp
  ultimately show ?thesis by (simp add: js_trim_space)
qed

text \<open>
  Claim C9. The date is said to be segment 4 with the prefix \<open>Released on:\<close> stripped,
  trimmed, whenever segment 4 starts with that prefix. The guard tests
  \<open>startsWith("Released on:")\<close> but the removal is \<open>replace("Released on: ", '')\<close>, with a
  space: on a last paragraph \<open>Released on:2020-01-01\<close> the guard holds, nothing is
  removed, and the date keeps the prefix, where stripping it gives \<open>2020-01-01\<close>.
\<close>

theorem released_on_prefix_not_stripped:
  "bi_short_description (topic_basic ''Released on:2020-01-01'')
     = Some (topic_description ''Released on:2020-01-01'')
   \<and> prefix ''Provided to YouTube by'' (topic_description ''Released on:2020-01-01'')
   \<and> js_split [CHR 0x0A, CHR 0x0A] 5 (topic_description ''Released on:2020-01-01'')
       = [''Provided to YouTube by Label'', ''Song - Band'', ''Album'', ''(P) 2020 Label'',
          ''Released on:2020-01-01'']
   \<and> prefix ''Released on:'' ''Released on:2020-01-01''
   \<and> album (fileMetadata_of ex_host (topic_basic ''Released on:2020-01-01'')) = Some ''Album''
   \<and> copyright (fileMetadata_of ex_host (topic_basic ''Released on:2020-01-01''))
       = Some ''(P) 2020 Label''
   \<and> date (fileMetadata_of ex_host (topic_basic ''Released on:2020-01-01''))
       = Some ''Released on:2020-01-01''
   \<and> js_trim (drop (length ''Released on:'') ''Released on:2020-01-01'') = ''2020-01-01''
   \<and> date (fileMetadata_of ex_host (topic_basic ''Released on: 2020-01-01''))
       = Some ''2020-01-01''"
  by (simp add: ex_defs eval_defs)

subsection \<open>The shared client and its refresh period\<close>

lemma acquire_client_cases:
  "acquire_client x g =
     (if innertube g = None \<or> shouldRefreshPlayer g (now_check x) then rebuild x g
      else (Inr (the (innertube g)), g, []))"
  by (simp add: acquire_client_def split: option.splits)

lemma rebuild_events: "snd (snd (rebuild x g)) = [EvCreate]"
  by (simp add: rebuild_def split: sum.splits)

lemma rebuild_globals:
  "fst (snd (rebuild x g)) =
     (case create x of Inl e \<Rightarrow> g
      | Inr c \<Rightarrow> \<lparr>innertube = Some c, lastRefreshedAt = Some (now_set x)\<rparr>)"
  by (simp add: rebuild_def split: sum.splits)

lemma shouldRefreshPlayer_iff:
  "shouldRefreshPlayer g now
     \<longleftrightarrow> (\<exists>t. lastRefreshedAt g = Some t \<and> PLAYER_REFRESH_PERIOD < now - t)"
  by (auto simp: shouldRefreshPlayer_def split: option.splits)

text \<open>Only \<open>acquire_client\<close> touches the module variables and calls \<open>Innertube.create\<close>.\<close>

lemma oauth_login_events:
  "oauth_login x d s = (r, ev) \<Longrightarrow> count_list ev EvCreate = 0 \<and> updates_of ev = []"
  by (auto simp: oauth_login_def split: option.splits sum.splits if_splits)

lemma refresh_token_events:
  "refresh_token x s = (r, ev) \<Longrightarrow> count_list ev EvCreate = 0 \<and> updates_of ev = []"
  by (auto simp: refresh_token_def split: sum.splits if_splits)

lemma write_back_events:
  "write_back x ck s = (r, ck', ev) \<Longrightarrow> count_list ev EvCreate = 0"
  by (auto simp: write_back_def Let_def split: option.splits if_splits)

lemma acquire_client_events:
  "acquire_client x g = (r, g', ev) \<Longrightarrow> updates_of ev = [] \<and> set ev \<subseteq> {EvCreate}"
  by (auto simp: acquire_client_def rebuild_def split: option.splits sum.splits if_splits)

lemma cloneInnertube_globals:
  assumes "cloneInnertube x g ck = (r, g', ck', ev)"
  shows "g' = fst (snd (acquire_client x g))
       \<and> count_list ev EvCreate = count_list (snd (snd (acquire_client x g))) EvCreate"
proof (cases "acquire_client x g")
  case (fields r0 g0 ev0)
  show ?thesis
  proof (cases r0)
    case (Inl e)
    with fields assms show ?thesis by (simp add: cloneInnertube_def)
  next
    case (Inr c)
    from Inr fields assms show ?thesis
      by (auto simp: cloneInnertube_def Let_def split: prod.splits sum.splits if_splits
            dest: oauth_login_events refresh_token_events write_back_events)
  qed
qed

lemma acquire_client_count:
  "count_list (snd (snd (acquire_client x g))) EvCreate
     = (if innertube g = None \<or> shouldRefreshPlayer g (now_check x) then 1 else 0)"
  by (simp add: acquire_client_cases rebuild_events)

lemma acquire_client_globals:
  "fst (snd (acquire_client x g))
     = (if innertube g = None \<or> shouldRefreshPlayer g (now_check x)
        then (case create x of Inl e \<Rightarrow> g
              | Inr c \<Rightarrow> \<lparr>innertube = Some c, lastRefreshedAt = Some (now_set x)\<rparr>)
        else g)"
  by (simp add: acquire_client_cases rebuild_globals)

text \<open>Two calls whose staleness checks are at most one period apart.\<close>

lemma two_calls_one_rebuild:
  assumes t: "now_check x1 \<le> now_set x1" "now_check x2 - now_check x1 \<le> PLAYER_REFRESH_PERIOD"
    and g1_def: "g1 = fst (snd (acquire_client x1 g))"
    and g2_def: "g2 = fst (snd (acquire_client x2 g1))"
  shows "(g1 = g \<or> g2 = g1)
       \<and> ((\<exists>c. create x1 = Inr c) \<longrightarrow>
            count_list (snd (snd (acquire_client x1 g))) EvCreate
              + count_list (snd (snd (acquire_client x2 g1))) EvCreate \<le> 1)"
proof (cases "innertube g = None \<or> shouldRefreshPlayer g (now_check x1)")
  case False
  then have "g1 = g" by (auto simp: g1_def acquire_client_globals)
  moreover from False have "count_list (snd (snd (acquire_client x1 g))) EvCreate = 0"
    by (auto simp: acquire_client_count)
  moreover have "count_list (snd (snd (acquire_client x2 g1))) EvCreate \<le> 1"
    by (simp add: acquire_client_count)
  ultimately show ?thesis by simp
next
  case True
  show ?thesis
  proof (cases "create x1")
    case (Inl e)
    with True have "g1 = g" by (auto simp: g1_def acquire_client_globals)
    with Inl show ?thesis by simp
  next
    case (Inr c)
    with True have g1: "g1 = \<lparr>innertube = Some c, lastRefreshedAt = Some (now_set x1)\<rparr>"
      by (auto simp: g1_def acquire_client_globals)
    from t have "\<not> now_set x1 + PLAYER_REFRESH_PERIOD < now_check x2" by arith
    with g1 have fresh: "\<not> (innertube g1 = None \<or> shouldRefreshPlayer g1 (now_check x2))"
      by (simp add: shouldRefreshPlayer_def)
    then have "g2 = g1" by (auto simp: g2_def acquire_client_globals)
    moreover from True have "count_list (snd (snd (acquire_client x1 g))) EvCreate = 1"
      by (auto simp: acquire_client_count)
    moreover from fresh have "count_list (snd (snd (acquire_client x2 g1))) EvCreate = 0"
      by (auto simp: acquire_client_count)
    ultimately show ?thesis by simp
  qed
qed

text \<open>
  Claim C6, as amended. The shared client is rebuilt exactly when it is absent or when
  now minus \<open>lastRefreshedAt\<close> is more than 15 minutes (at exactly 15 minutes it is kept);
  a rebuild that succeeds sets \<open>lastRefreshedAt\<close> to the time read after it, a call that
  does not rebuild leaves both variables alone. Hence, of two sequential calls whose
  checks are at most 15 minutes apart, at most one writes the shared client, and when the
  first creation does not throw \<open>Innertube.create\<close> is called at most once.
\<close>

theorem refresh_period_strict:
  "(\<forall>r g' ev. acquire_client x g = (r, g', ev) \<longrightarrow>
       ((EvCreate \<in> set ev) \<longleftrightarrow>
          (innertube g = None
           \<or> (\<exists>t. lastRefreshedAt g = Some t \<and> PLAYER_REFRESH_PERIOD < now_check x - t)))
       \<and> (\<forall>c. EvCreate \<in> set ev \<and> create x = Inr c \<longrightarrow>
             r = Inr c \<and> g' = \<lparr>innertube = Some c, lastRefreshedAt = Some (now_set x)\<rparr>)
       \<and> (EvCreate \<notin> set ev \<longrightarrow> g' = g \<and> (\<exists>c. innertube g = Some c \<and> r = Inr c)))
   \<and> PLAYER_REFRESH_PERIOD = 900000
   \<and> (\<forall>r1 g1 c1 ev1 r2 g2 c2 ev2.
         cloneInnertube x1 g ck1 = (r1, g1, c1, ev1)
         \<and> cloneInnertube x2 g1 ck2 = (r2, g2, c2, ev2)
         \<and> now_check x1 \<le> now_set x1
         \<and> now_check x2 - now_check x1 \<le> PLAYER_REFRESH_PERIOD
       \<longrightarrow> (g1 = g \<or> g2 = g1)
           \<and> ((\<exists>c. create x1 = Inr c) \<longrightarrow> count_list (ev1 @ ev2) EvCreate \<le> 1))"
proof (intro conjI)
  show "\<forall>r g' ev. acquire_client x g = (r, g', ev) \<longrightarrow>
       ((EvCreate \<in> set ev) \<longleftrightarrow>
          (innertube g = None
           \<or> (\<exists>t. lastRefreshedAt g = Some t \<and> PLAYER_REFRESH_PERIOD < now_check x - t)))
       \<and> (\<forall>c. EvCreate \<in> set ev \<and> create x = Inr c \<longrightarrow>
             r = Inr c \<and> g' = \<lparr>innertube = Some c, lastRefreshedAt = Some (now_set x)\<rparr>)
       \<and> (EvCreate \<notin> set ev \<longrightarrow> g' = g \<and> (\<exists>c. innertube g = Some c \<and> r = Inr c))"
    unfolding shouldRefreshPlayer_iff[symmetric]
    by (auto simp: acquire_client_def rebuild_def split: option.splits sum.splits if_splits)
  show "PLAYER_REFRESH_PERIOD = 900000" by (simp add: PLAYER_REFRESH_PERIOD_def)
  show "\<forall>r1 g1 c1 ev1 r2 g2 c2 ev2.
         cloneInnertube x1 g ck1 = (r1, g1, c1, ev1)
         \<and> cloneInnertube x2 g1 ck2 = (r2, g2, c2, ev2)
         \<and> now_check x1 \<le> now_set x1
         \<and> now_check x2 - now_check x1 \<le> PLAYER_REFRESH_PERIOD
       \<longrightarrow> (g1 = g \<or> g2 = g1)
           \<and> ((\<exists>c. create x1 = Inr c) \<longrightarrow> count_list (ev1 @ ev2) EvCreate \<le> 1)"
  proof (intro allI impI)
    fix r1 g1 c1 ev1 r2 g2 c2 ev2
    assume a: "cloneInnertube x1 g ck1 = (r1, g1, c1, ev1)
         \<and> cloneInnertube x2 g1 ck2 = (r2, g2, c2, ev2)
         \<and> now_check x1 \<le> now_set x1
         \<and> now_check x2 - now_check x1 \<le> PLAYER_REFRESH_PERIOD"
    from a cloneInnertube_globals[of x1 g ck1 r1 g1 c1 ev1]
    have 1: "g1 = fst (snd (acquire_client x1 g))"
      "count_list ev1 EvCreate = count_list (snd (snd (acquire_client x1 g))) EvCreate"
      by simp_all
    from a cloneInnertube_globals[of x2 g1 ck2 r2 g2 c2 ev2]
    have 2: "g2 = fst (snd (acquire_client x2 g1))"
      "count_list ev2 EvCreate = count_list (snd (snd (acquire_client x2 g1))) EvCreate"
      by simp_all
    from a have t: "now_check x1 \<le> now_set x1"
      "now_check x2 - now_check x1 \<le> PLAYER_REFRESH_PERIOD" by simp_all
    from two_calls_one_rebuild[OF t 1(1) 2(1)] 1(2) 2(2)
    show "(g1 = g \<or> g2 = g1)
           \<and> ((\<exists>c. create x1 = Inr c) \<longrightarrow> count_list (ev1 @ ev2) EvCreate \<le> 1)"
      by simp
  qed
qed

theorem refresh_period_strict_witness:
  "acquire_client ex_ext ex_globals = (Inr (Client 1), ex_globals', [EvCreate])
   \<and> innertube ex_globals = None
   \<and> create ex_ext = Inr (Client 1)
   \<and> ex_globals' = \<lparr>innertube = Some (Client 1), lastRefreshedAt = Some (now_set ex_ext)\<rparr>
   \<and> acquire_client later_ext ex_globals' = (Inr (Client 1), ex_globals', [])
   \<and> EvCreate \<notin> set []
   \<and> cloneInnertube ex_ext ex_globals None = (Inr ex_session, ex_globals', None, [EvCreate])
   \<and> cloneInnertube later_ext ex_globals' None = (Inr ex_session, ex_globals', None, [])
   \<and> now_check ex_ext \<le> now_set ex_ext
   \<and> now_check later_ext - now_check ex_ext \<le> PLAYER_REFRESH_PERIOD
   \<and> count_list ([EvCreate] @ []) EvCreate \<le> 1"
proof -
  have a: "acquire_client ex_ext ex_globals = (Inr (Client 1), ex_globals', [EvCreate])"
    by (simp add: ex_defs session_defs)
  have b: "acquire_client later_ext ex_globals' = (Inr (Client 1), ex_globals', [])"
    by (simp add: ex_defs session_defs)
  have c: "cloneInnertube ex_ext ex_globals None = (Inr ex_session, ex_globals', None, [EvCreate])"
    by (simp add: ex_defs session_defs)
  have d: "cloneInnertube later_ext ex_globals' None = (Inr ex_session, ex_globals', None, [])"
    by (simp add: ex_defs session_defs)
  have t: "now_check ex_ext \<le> now_set ex_ext"
    "now_check later_ext - now_check ex_ext \<le> PLAYER_REFRESH_PERIOD"
    by (simp_all add: ex_defs session_defs)
  have e: "create ex_ext = Inr (Client 1)" "innertube ex_globals = None"
    by (simp_all add: ex_defs)
  note u = refresh_period_strict[where x = ex_ext and g = ex_globals and ?x1.0 = ex_ext
      and ?x2.0 = later_ext and ?ck1.0 = None and ?ck2.0 = None]
  from u a e have g: "ex_globals' = \<lparr>innertube = Some (Client 1), lastRefreshedAt = Some (now_set ex_ext)\<rparr>"
    by auto
  from u c d t e have n: "count_list ([EvCreate] @ []) EvCreate \<le> 1"
    by blast
  from a e g b c d t n show ?thesis by simp
qed

text \<open>
  Exactly fifteen minutes after the last refresh the claim has the client rebuilt; the
  source compares with \<open><\<close> and keeps it.
\<close>

theorem refresh_at_exactly_fifteen_minutes_counterexample:
  "innertube warm_globals = Some (Client 0)
   \<and> lastRefreshedAt warm_globals = Some 0
   \<and> now_check boundary_ext - 0 = 15 * 60 * 1000
   \<and> PLAYER_REFRESH_PERIOD \<le> now_check boundary_ext - 0
   \<and> acquire_client boundary_ext warm_globals = (Inr (Client 0), warm_globals, [])
   \<and> cloneInnertube boundary_ext warm_globals None
       = (Inr \<lparr>session_client = Client 0, logged_in = False, oauth = ex_oauth0\<rparr>,
          warm_globals, None, [])"
  by (simp add: ex_defs session_defs)

subsection \<open>Credentials: unusable bundles and the expiry write-back\<close>

text \<open>
  Claim C7. A stored bundle in which \<open>access_token\<close> or \<open>refresh_token\<close> is not a string,
  or which has neither \<open>expires\<close> nor \<open>expiry_date\<close>, is treated like an absent bundle:
  once the shared client is there and the new session starts unauthenticated,
  \<open>cloneInnertube\<close> returns a session that is not logged in, the stored bundle is
  unchanged, and no event besides a client creation occurs (no OAuth initialisation, no
  refresh, no write-back).
\<close>

theorem incomplete_bundle_is_absent:
  assumes "\<not> is_string (cv ''access_token'') \<or> \<not> is_string (cv ''refresh_token'')
           \<or> (cv ''expires'' = None \<and> cv ''expiry_date'' = None)"
    and "\<not> fresh_logged_in x"
    and "acquire_client x g = (Inr c, g', ev)"
  shows "transformSessionData (Some cv) = None
       \<and> cloneInnertube x g (Some cv)
           = (Inr \<lparr>session_client = c, logged_in = False, oauth = fresh_oauth x\<rparr>,
              g', Some cv, ev)
       \<and> cloneInnertube x g None
           = (Inr \<lparr>session_client = c, logged_in = False, oauth = fresh_oauth x\<rparr>,
              g', None, ev)
       \<and> set ev \<subseteq> {EvCreate} \<and> updates_of ev = []"
proof -
  from assms(1) have t: "transformSessionData (Some cv) = None"
    by (auto simp: transformSessionData_def REQUIRED_VALUES_def truthy_def)
  have n: "transformSessionData None = None" by (simp add: transformSessionData_def)
  from assms(2,3) t have a: "cloneInnertube x g (Some cv)
           = (Inr \<lparr>session_client = c, logged_in = False, oauth = fresh_oauth x\<rparr>,
              g', Some cv, ev)"
    by (simp add: cloneInnertube_def oauth_login_def)
  from assms(2,3) n have b: "cloneInnertube x g None
           = (Inr \<lparr>session_client = c, logged_in = False, oauth = fresh_oauth x\<rparr>,
              g', None, ev)"
    by (simp add: cloneInnertube_def oauth_login_def)
  from acquire_client_events[OF assms(3)] t a b show ?thesis by simp
qed

theorem incomplete_bundle_is_absent_witness:
  "\<not> is_string (partial_cookie ''refresh_token'')
   \<and> \<not> fresh_logged_in ex_ext
   \<and> acquire_client ex_ext ex_globals = (Inr (Client 1), ex_globals', [EvCreate])
   \<and> transformSessionData (Some partial_cookie) = None
   \<and> cloneInnertube ex_ext ex_globals (Some partial_cookie)
       = (Inr \<lparr>session_client = Client 1, logged_in = False, oauth = fresh_oauth ex_ext\<rparr>,
          ex_globals', Some partial_cookie, [EvCreate])
   \<and> updates_of [EvCreate] = []"
proof -
  have r: "\<not> is_string (partial_cookie ''refresh_token'')"
    by (simp add: partial_cookie_def is_string_def)
  have f: "\<not> fresh_logged_in ex_ext" by (simp add: ex_ext_def)
  have a: "acquire_client ex_ext ex_globals = (Inr (Client 1), ex_globals', [EvCreate])"
    by (simp add: ex_defs session_defs)
  from r have h: "\<not> is_string (partial_cookie ''access_token'')
      \<or> \<not> is_string (partial_cookie ''refresh_token'')
      \<or> (partial_cookie ''expires'' = None \<and> partial_cookie ''expiry_date'' = None)"
    by simp
  from incomplete_bundle_is_absent[OF h f a] r f a
  show ?thesis by simp
qed

lemma write_back_result:
  "write_back x (Some cv) s = (r, ck', ev) \<Longrightarrow>
     (case Date_time x (oauth2_tokens (oauth s) ''expiry_date'') of
        None \<Rightarrow> r = Inl RangeError \<and> ck' = Some cv \<and> ev = []
      | Some t \<Rightarrow>
          r = Inr ()
          \<and> (if time_differs (Date_time x (cv ''expiry_date'')) (Some t)
              then ck' = Some (updateCookieValues cv (written_bundle (oauth s) (toISOString x t)))
                   \<and> ev = [EvUpdate (written_bundle (oauth s) (toISOString x t))]
              else ck' = Some cv \<and> ev = []))"
  by (auto simp: write_back_def Let_def time_differs_def split: option.splits if_splits)

lemma updates_of_append: "updates_of (ev @ ev') = updates_of ev @ updates_of ev'"
  by (induction ev rule: updates_of.induct) simp_all

text \<open>How a call of \<open>cloneInnertube\<close> that reaches the write-back decomposes.\<close>

lemma cloneInnertube_logged_in:
  assumes "cloneInnertube x g cookie = (Inr s, g', ck', ev)" and "logged_in s"
  shows "\<exists>ev0 ev3. write_back x cookie s = (Inr (), ck', ev3)
           \<and> ev = ev0 @ ev3 \<and> updates_of ev0 = []"
proof (cases "acquire_client x g")
  case (fields r0 g0 ev0)
  with assms(1) obtain c where r0: "r0 = Inr c"
    by (cases r0) (simp_all add: cloneInnertube_def)
  let ?s0 = "\<lparr>session_client = c, logged_in = fresh_logged_in x, oauth = fresh_oauth x\<rparr>"
  obtain r1 ev1 where l: "oauth_login x (transformSessionData cookie) ?s0 = (r1, ev1)"
    by (cases "oauth_login x (transformSessionData cookie) ?s0") simp
  with fields r0 assms(1) obtain s1 where r1: "r1 = Inr s1"
    by (cases r1) (simp_all add: cloneInnertube_def)
  have li: "logged_in s1"
  proof (rule ccontr)
    assume "\<not> logged_in s1"
    with fields r0 l r1 assms(1) have "s = s1" by (simp add: cloneInnertube_def)
    with assms(2) \<open>\<not> logged_in s1\<close> show False by simp
  qed
  obtain r2 ev2 where f: "refresh_token x s1 = (r2, ev2)"
    by (cases "refresh_token x s1") simp
  with fields r0 l r1 li assms(1) obtain s2 where r2: "r2 = Inr s2"
    by (cases r2) (simp_all add: cloneInnertube_def)
  obtain r3 ck3 ev3 where w: "write_back x cookie s2 = (r3, ck3, ev3)"
    by (cases "write_back x cookie s2") simp
  with fields r0 l r1 li f r2 assms(1) have
    e: "s = s2 \<and> ck' = ck3 \<and> ev = ev0 @ ev1 @ ev2 @ ev3 \<and> r3 = Inr ()"
    by (cases r3) (simp_all add: cloneInnertube_def)
  from acquire_client_events[OF fields] oauth_login_events[OF l] refresh_token_events[OF f]
  have "updates_of (ev0 @ ev1 @ ev2) = []" by (simp add: updates_of_append)
  with w e show ?thesis by (intro exI[of _ "ev0 @ ev1 @ ev2"] exI[of _ ev3]) simp
qed

lemma cloneInnertube_no_update:
  assumes "cloneInnertube x g cookie = (r, g', ck', ev)"
    and "\<forall>s. r = Inr s \<longrightarrow> \<not> logged_in s"
  shows "updates_of ev = [] \<and> ck' = cookie"
proof (cases "acquire_client x g")
  case (fields r0 g0 ev0)
  note a = acquire_client_events[OF fields]
  show ?thesis
  proof (cases r0)
    case (Inl e)
    with fields assms(1) a show ?thesis by (auto simp: cloneInnertube_def)
  next
    case (Inr c)
    let ?s0 = "\<lparr>session_client = c, logged_in = fresh_logged_in x, oauth = fresh_oauth x\<rparr>"
    obtain r1 ev1 where l: "oauth_login x (transformSessionData cookie) ?s0 = (r1, ev1)"
      by (cases "oauth_login x (transformSessionData cookie) ?s0") simp
    note b = oauth_login_events[OF l]
    show ?thesis
    proof (cases r1)
      case (Inl e)
      with fields Inr l assms(1) a b show ?thesis
        by (auto simp: cloneInnertube_def updates_of_append)
    next
      case s1: (Inr s1)
      show ?thesis
      proof (cases "logged_in s1")
        case False
        with fields Inr l s1 assms(1) a b show ?thesis
          by (auto simp: cloneInnertube_def updates_of_append)
      next
        case True
        obtain r2 ev2 where f: "refresh_token x s1 = (r2, ev2)"
          by (cases "refresh_token x s1") simp
        note c = refresh_token_events[OF f]
        show ?thesis
        proof (cases r2)
          case (Inl e)
          with fields Inr l s1 True f assms(1) a b c show ?thesis
            by (auto simp: cloneInnertube_def updates_of_append)
        next
          case s2: (Inr s2)
          have li: "logged_in s2"
            using f s2 True by (auto simp: refresh_token_def split: if_splits sum.splits)
          obtain r3 ck3 ev3 where w: "write_back x cookie s2 = (r3, ck3, ev3)"
            by (cases "write_back x cookie s2") simp
          show ?thesis
          proof (cases r3)
            case (Inl e)
            with w have "ck3 = cookie \<and> ev3 = []"
              by (auto simp: write_back_def Let_def split: option.splits if_splits)
            with fields Inr l s1 True f s2 w Inl assms(1) a b c show ?thesis
              by (auto simp: cloneInnertube_def updates_of_append)
          next
            case u: (Inr u)
            with fields Inr l s1 True f s2 w assms(1) have "r = Inr s2"
              by (auto simp: cloneInnertube_def)
            with assms(2) li show ?thesis by simp
          qed
        qed
      qed
    qed
  qed
qed

text \<open>
  Claim C5. For a call of \<open>cloneInnertube\<close> that returns an authenticated session \<open>s\<close>:
  \<open>updateCookieValues\<close> is called if and only if the time value of the stored
  \<open>expiry_date\<close> differs (as \<open>!==\<close> on \<open>getTime()\<close>) from the time value of the session's
  token expiry after the refresh check; when they are equal nothing is written and the
  stored bundle is as before; when they differ the one bundle written is the client id
  merged with the tokens, with \<open>expiry_date\<close> the ISO string of the new expiry, and the
  store merges it in. A call that raises, or returns an unauthenticated session, writes
  nothing.
\<close>

theorem expiry_write_back:
  assumes "cloneInnertube x g cookie = (r, g', ck', ev)"
  shows
   "(\<forall>s. r = Inr s \<and> logged_in s \<longrightarrow>
       (\<exists>cv. cookie = Some cv
          \<and> (updates_of ev \<noteq> [] \<longleftrightarrow>
               time_differs (Date_time x (cv ''expiry_date''))
                 (Date_time x (oauth2_tokens (oauth s) ''expiry_date'')))
          \<and> (\<not> time_differs (Date_time x (cv ''expiry_date''))
                 (Date_time x (oauth2_tokens (oauth s) ''expiry_date''))
              \<longrightarrow> updates_of ev = [] \<and> ck' = cookie)
          \<and> (time_differs (Date_time x (cv ''expiry_date''))
                 (Date_time x (oauth2_tokens (oauth s) ''expiry_date''))
              \<longrightarrow> (\<exists>t. Date_time x (oauth2_tokens (oauth s) ''expiry_date'') = Some t
                    \<and> updates_of ev
                        = [(client_id (oauth s) ++ oauth2_tokens (oauth s))
                             (''expiry_date'' \<mapsto> VStr (toISOString x t))]
                    \<and> ck' = Some (updateCookieValues cv
                              ((client_id (oauth s) ++ oauth2_tokens (oauth s))
                                 (''expiry_date'' \<mapsto> VStr (toISOString x t))))))))
    \<and> ((\<forall>s. r = Inr s \<longrightarrow> \<not> logged_in s) \<longrightarrow> updates_of ev = [] \<and> ck' = cookie)"
proof (intro conjI allI impI)
  fix s
  assume a: "r = Inr s \<and> logged_in s"
  with assms have c: "cloneInnertube x g cookie = (Inr s, g', ck', ev)" by simp
  from cloneInnertube_logged_in[OF c] a obtain ev0 ev3 where
    w: "write_back x cookie s = (Inr (), ck', ev3)" and ev: "ev = ev0 @ ev3"
    and e0: "updates_of ev0 = []"
    by blast
  from w obtain cv where cv: "cookie = Some cv"
    by (cases cookie) (simp_all add: write_back_def)
  let ?old = "Date_time x (cv ''expiry_date'')"
  let ?new = "Date_time x (oauth2_tokens (oauth s) ''expiry_date'')"
  from write_back_result[OF w[unfolded cv]] obtain t where
    t: "?new = Some t"
    and d: "time_differs ?old (Some t) \<Longrightarrow>
              ck' = Some (updateCookieValues cv (written_bundle (oauth s) (toISOString x t)))
              \<and> ev3 = [EvUpdate (written_bundle (oauth s) (toISOString x t))]"
    and k: "\<not> time_differs ?old (Some t) \<Longrightarrow> ck' = Some cv \<and> ev3 = []"
    by (cases ?new) (auto split: if_splits)
  have u: "updates_of ev = updates_of ev3" by (simp add: ev e0 updates_of_append)
  show "\<exists>cv. cookie = Some cv
          \<and> (updates_of ev \<noteq> [] \<longleftrightarrow>
               time_differs (Date_time x (cv ''expiry_date''))
                 (Date_time x (oauth2_tokens (oauth s) ''expiry_date'')))
          \<and> (\<not> time_differs (Date_time x (cv ''expiry_date''))
                 (Date_time x (oauth2_tokens (oauth s) ''expiry_date''))
              \<longrightarrow> updates_of ev = [] \<and> ck' = cookie)
          \<and> (time_differs (Date_time x (cv ''expiry_date''))
                 (Date_time x (oauth2_tokens (oauth s) ''expiry_date''))
              \<longrightarrow> (\<exists>t. Date_time x (oauth2_tokens (oauth s) ''expiry_date'') = Some t
                    \<and> updates_of ev
                        = [(client_id (oauth s) ++ oauth2_tokens (oauth s))
                             (''expiry_date'' \<mapsto> VStr (toISOString x t))]
                    \<and> ck' = Some (updateCookieValues cv
                              ((client_id (oauth s) ++ oauth2_tokens (oauth s))
                                 (''expiry_date'' \<mapsto> VStr (toISOString x t))))))"
  proof (cases "time_differs ?old ?new")
    case True
    with d t have "ck' = Some (updateCookieValues cv (written_bundle (oauth s) (toISOString x t)))"
      and "updates_of ev = [written_bundle (oauth s) (toISOString x t)]"
      by (simp_all add: u)
    with True t cv show ?thesis by (simp add: written_bundle_def)
  next
    case False
    with k t have "ck' = Some cv" and "updates_of ev = []" by (simp_all add: u)
    with False cv show ?thesis by simp
  qed
next
  assume "\<forall>s. r = Inr s \<longrightarrow> \<not> logged_in s"
  with cloneInnertube_no_update[OF assms] show "updates_of ev = []" by simp
next
  assume "\<forall>s. r = Inr s \<longrightarrow> \<not> logged_in s"
  with cloneInnertube_no_update[OF assms] show "ck' = cookie" by simp
qed

lemma cookie_a_values:
  "cookie_a ''access_token'' = Some (VStr ''a'')"
  "cookie_a ''refresh_token'' = Some (VStr ''r'')"
  "cookie_a ''expiry_date'' = Some (VNum 1000)"
  "cookie_a ''expires'' = None"
  by (simp_all add: cookie_a_def)

theorem expiry_write_back_witness:
  "cloneInnertube refresh_ext ex_globals (Some cookie_a)
     = (Inr refreshed_session, ex_globals',
        Some (updateCookieValues cookie_a
                (cookie_a(''expiry_date'' \<mapsto> VStr ''1970-01-01T00:00:05.000Z''))),
        [EvCreate, EvInit cookie_a, EvRefresh,
         EvUpdate (cookie_a(''expiry_date'' \<mapsto> VStr ''1970-01-01T00:00:05.000Z''))])
   \<and> logged_in refreshed_session
   \<and> time_differs (Date_time refresh_ext (cookie_a ''expiry_date''))
        (Date_time refresh_ext (oauth2_tokens (oauth refreshed_session) ''expiry_date''))
   \<and> Date_time refresh_ext (oauth2_tokens (oauth refreshed_session) ''expiry_date'') = Some 5000
   \<and> updates_of [EvCreate, EvInit cookie_a, EvRefresh,
         EvUpdate (cookie_a(''expiry_date'' \<mapsto> VStr ''1970-01-01T00:00:05.000Z''))]
       = [(client_id (oauth refreshed_session) ++ oauth2_tokens (oauth refreshed_session))
            (''expiry_date'' \<mapsto> VStr (toISOString refresh_ext 5000))]
   \<and> cloneInnertube ex_ext ex_globals (Some cookie_a)
       = (Inr kept_session, ex_globals', Some cookie_a, [EvCreate, EvInit cookie_a])
   \<and> logged_in kept_session
   \<and> time_differs (Date_time ex_ext (cookie_a ''expiry_date''))
        (Date_time ex_ext (oauth2_tokens (oauth kept_session) ''expiry_date'')) = False
   \<and> updates_of [EvCreate, EvInit cookie_a] = []
   \<and> cloneInnertube ex_ext ex_globals None = (Inr ex_session, ex_globals', None, [EvCreate])
   \<and> logged_in ex_session = False
   \<and> updates_of [EvCreate] = []"
proof -
  have a: "cloneInnertube refresh_ext ex_globals (Some cookie_a)
     = (Inr refreshed_session, ex_globals',
        Some (updateCookieValues cookie_a
                (cookie_a(''expiry_date'' \<mapsto> VStr ''1970-01-01T00:00:05.000Z''))),
        [EvCreate, EvInit cookie_a, EvRefresh,
         EvUpdate (cookie_a(''expiry_date'' \<mapsto> VStr ''1970-01-01T00:00:05.000Z''))])"
    by (simp add: ex_defs session_defs cookie_a_values)
  have b: "cloneInnertube ex_ext ex_globals (Some cookie_a)
       = (Inr kept_session, ex_globals', Some cookie_a, [EvCreate, EvInit cookie_a])"
    by (simp add: ex_defs session_defs cookie_a_values)
  have c: "cloneInnertube ex_ext ex_globals None = (Inr ex_session, ex_globals', None, [EvCreate])"
    by (simp add: ex_defs session_defs)
  have l: "logged_in refreshed_session" "logged_in kept_session" "logged_in ex_session = False"
    by (simp_all add: ex_defs)
  have d: "time_differs (Date_time refresh_ext (cookie_a ''expiry_date''))
        (Date_time refresh_ext (oauth2_tokens (oauth refreshed_session) ''expiry_date''))"
    by (simp add: ex_defs session_defs cookie_a_values)
  have n: "Date_time refresh_ext (oauth2_tokens (oauth refreshed_session) ''expiry_date'') = Some 5000"
    by (simp add: ex_defs)
  have k: "time_differs (Date_time ex_ext (cookie_a ''expiry_date''))
        (Date_time ex_ext (oauth2_tokens (oauth kept_session) ''expiry_date'')) = False"
    by (simp add: ex_defs session_defs cookie_a_values)
  from expiry_write_back[OF a] l(1) d n
  have u: "updates_of [EvCreate, EvInit cookie_a, EvRefresh,
         EvUpdate (cookie_a(''expiry_date'' \<mapsto> VStr ''1970-01-01T00:00:05.000Z''))]
       = [(client_id (oauth refreshed_session) ++ oauth2_tokens (oauth refreshed_session))
            (''expiry_date'' \<mapsto> VStr (toISOString refresh_ext 5000))]"
    by auto
  from expiry_write_back[OF b] l(2) k
  have v: "updates_of [EvCreate, EvInit cookie_a] = []" by auto
  from expiry_write_back[OF c] l(3)
  have w: "updates_of [EvCreate] = []" by auto
  from a l d n u b k v c w show ?thesis by simp
qed

end
